theory Spec2Isabelle
  imports Complex_Main
begin

section \<open>Numbers and coordinates\<close>

text \<open>
  The TypeScript \<^verbatim>\<open>number\<close> is read in two ways. The area formula, the duplicate
  detector and the feature registry are stated over \<^typ>\<open>real\<close>: finite values in
  exact arithmetic, the terms, cases and bounds of the code as they are written. Where
  a statement depends on how a result is rounded or on the values NaN and Infinity (the
  unit formatter, and the area as the double the code returns) the number is an
  IEEE 754 binary64 value, the type \<open>number\<close> of the next section.

  \<^verbatim>\<open>type LatLng = { lat: number; lng: number }\<close> (map-with-drawing.tsx, line 24).
  The code reads only the members \<^verbatim>\<open>lat\<close> and \<^verbatim>\<open>lng\<close> of an \<^verbatim>\<open>L.LatLng\<close>,
  so the same record stands for both.
\<close>

record LatLng =
  lat :: real
  lng :: real

section \<open>Binary64 numbers\<close>

text \<open>
  A number is NaN, an infinity, or \<open>Finite r\<close>, the double of the value \<open>r\<close>; the
  two zeros are not told apart (no operation used here observes the sign of a zero).
  Every arithmetic operation gives the exact result rounded to the nearest double, a tie
  going to the even significand (IEEE 754, roundTiesToEven).

  \<open>ulp a\<close> is the spacing of the doubles around \<open>a > 0\<close>: the power of two \<open>u\<close>
  with \<open>2^52 * u \<le> a < 2^53 * u\<close>, found by doubling or halving from 1, and never below
  \<open>2^-1074\<close>, the spacing of the subnormal numbers. The nearest multiple of \<open>u\<close> is
  the rounded value, unless it reaches \<open>2^1024\<close>: then the result is an infinity.
\<close>

datatype number = Finite real | NaN | PosInf | NegInf

definition tie_to_even :: "int \<Rightarrow> real \<Rightarrow> int" where
  "tie_to_even f d =
     (if d < 1 / 2 then f else if 1 / 2 < d then f + 1 else if even f then f else f + 1)"

definition half_even :: "real \<Rightarrow> int" where
  "half_even q = tie_to_even \<lfloor>q\<rfloor> (q - of_int \<lfloor>q\<rfloor>)"

fun search_up :: "nat \<Rightarrow> real \<Rightarrow> real \<Rightarrow> real" where
  "search_up 0 a u = u"
| "search_up (Suc n) a u = (if 2 ^ 53 * u \<le> a then search_up n a (2 * u) else u)"

fun search_down :: "nat \<Rightarrow> real \<Rightarrow> real \<Rightarrow> real" where
  "search_down 0 a u = u"
| "search_down (Suc n) a u = (if a < 2 ^ 52 * u then search_down n a (u / 2) else u)"

definition ulp :: "real \<Rightarrow> real" where
  "ulp a = (if 2 ^ 53 \<le> a then search_up 1024 a 1 else search_down 1074 a 1)"

definition overflow :: "real \<Rightarrow> real \<Rightarrow> number" where
  "overflow x r =
     (if 2 ^ 1024 \<le> r then (if x < 0 then NegInf else PosInf)
      else Finite (if x < 0 then - r else r))"

definition nearest :: "real \<Rightarrow> real \<Rightarrow> number" where
  "nearest x u = overflow x (of_int (half_even (\<bar>x\<bar> / u)) * u)"

definition round_double :: "real \<Rightarrow> number" where
  "round_double x = (if x = 0 then Finite 0 else nearest x (ulp \<bar>x\<bar>))"

text \<open>
  The operators \<^verbatim>\<open>+\<close>, \<^verbatim>\<open>-\<close>, \<^verbatim>\<open>*\<close> and \<^verbatim>\<open><\<close>, \<^verbatim>\<open>Math.abs\<close>, and the division by
  a finite constant other than zero, the only division in the code.
\<close>

fun js_neg :: "number \<Rightarrow> number" where
  "js_neg (Finite a) = Finite (- a)"
| "js_neg NaN = NaN"
| "js_neg PosInf = NegInf"
| "js_neg NegInf = PosInf"

fun js_add :: "number \<Rightarrow> number \<Rightarrow> number" where
  "js_add NaN y = NaN"
| "js_add x NaN = NaN"
| "js_add (Finite a) (Finite b) = round_double (a + b)"
| "js_add PosInf NegInf = NaN"
| "js_add NegInf PosInf = NaN"
| "js_add PosInf y = PosInf"
| "js_add x PosInf = PosInf"
| "js_add NegInf y = NegInf"
| "js_add x NegInf = NegInf"

definition js_sub :: "number \<Rightarrow> number \<Rightarrow> number" where
  "js_sub x y = js_add x (js_neg y)"

fun js_mul :: "number \<Rightarrow> number \<Rightarrow> number" where
  "js_mul NaN y = NaN"
| "js_mul x NaN = NaN"
| "js_mul (Finite a) (Finite b) = round_double (a * b)"
| "js_mul (Finite a) y =
     (if a = 0 then NaN else if (0 < a) = (y = PosInf) then PosInf else NegInf)"
| "js_mul x (Finite b) =
     (if b = 0 then NaN else if (0 < b) = (x = PosInf) then PosInf else NegInf)"
| "js_mul x y = (if x = y then PosInf else NegInf)"

fun js_div_by :: "number \<Rightarrow> real \<Rightarrow> number" where
  "js_div_by (Finite a) c = round_double (a / c)"
| "js_div_by NaN c = NaN"
| "js_div_by PosInf c = (if 0 < c then PosInf else NegInf)"
| "js_div_by NegInf c = (if 0 < c then NegInf else PosInf)"

fun js_abs :: "number \<Rightarrow> number" where
  "js_abs (Finite a) = Finite \<bar>a\<bar>"
| "js_abs NaN = NaN"
| "js_abs PosInf = PosInf"
| "js_abs NegInf = PosInf"

fun js_less :: "number \<Rightarrow> number \<Rightarrow> bool" where
  "js_less NaN y = False"
| "js_less x NaN = False"
| "js_less (Finite a) (Finite b) = (a < b)"
| "js_less NegInf NegInf = False"
| "js_less NegInf y = True"
| "js_less x NegInf = False"
| "js_less PosInf y = False"
| "js_less x PosInf = True"

text \<open>
  \<^verbatim>\<open>Math.PI\<close> is the double nearest to \<open>pi\<close>, \<open>884279719003555 / 2^48\<close>.
  \<^verbatim>\<open>Math.sin\<close> is approximated by the implementation: its value at a finite number
  other than zero is the parameter \<open>sin_impl\<close>; ECMA-262 fixes the sine of zero (zero)
  and of NaN and the infinities (NaN).
\<close>

definition Math_PI :: number where
  "Math_PI = Finite (884279719003555 / 281474976710656)"

fun Math_sin :: "(real \<Rightarrow> real) \<Rightarrow> number \<Rightarrow> number" where
  "Math_sin sin_impl (Finite a) = (if a = 0 then Finite 0 else Finite (sin_impl a))"
| "Math_sin sin_impl other = NaN"

section \<open>Area calculator (utils/mapUtils.ts)\<close>

definition EARTH_RADIUS :: real where
  "EARTH_RADIUS = 6378137"

definition toRad :: "real \<Rightarrow> real" where
  "toRad deg = (deg * pi) / 180"

text \<open>
  The loop \<^verbatim>\<open>for (let i = 0; i < points.length; i++)\<close> of \<^verbatim>\<open>calculateArea\<close>, with the
  accumulator \<^verbatim>\<open>area\<close> passed along. Both indices are below \<^verbatim>\<open>points.length\<close>
  whenever the body runs.
\<close>

function area_loop :: "LatLng list \<Rightarrow> nat \<Rightarrow> real \<Rightarrow> real" where
  "area_loop points i area =
     (if i < length points then
        (let p1 = points ! i;
             p2 = points ! ((i + 1) mod length points)
         in area_loop points (i + 1)
              (area + (lng p2 - lng p1) * (2 + sin (lat p1) + sin (lat p2))))
      else area)"
  by pat_completeness auto
termination
  by (relation "measure (\<lambda>(points, i, area). length points - i)") auto

declare area_loop.simps [simp del]

text \<open>
  \<^verbatim>\<open>calculateArea\<close> (mapUtils.ts). The component map-with-drawing.tsx declares a local
  \<^verbatim>\<open>calculateArea\<close> (lines 119 to 142) with the same body, statement for statement;
  this definition embeds both.
\<close>

definition calculateArea :: "LatLng list \<Rightarrow> real" where
  "calculateArea latlngs =
     (if length latlngs < 3 then 0
      else
        (let points = map (\<lambda>ll. \<lparr>lat = toRad (lat ll), lng = toRad (lng ll)\<rparr>) latlngs;
             area = area_loop points 0 0
         in \<bar>(area * EARTH_RADIUS * EARTH_RADIUS) / 2\<bar>))"

text \<open>
  The same function on doubles: every operation of the source rounds, in the order in
  which the source writes them.
\<close>

record LatLng_double =
  lat_double :: number
  lng_double :: number

definition toRad_double :: "number \<Rightarrow> number" where
  "toRad_double deg = js_div_by (js_mul deg Math_PI) 180"

function area_loop_double ::
  "(real \<Rightarrow> real) \<Rightarrow> LatLng_double list \<Rightarrow> nat \<Rightarrow> number \<Rightarrow> number" where
  "area_loop_double sin_impl points i area =
     (if i < length points then
        (let p1 = points ! i;
             p2 = points ! ((i + 1) mod length points)
         in area_loop_double sin_impl points (i + 1)
              (js_add area
                 (js_mul (js_sub (lng_double p2) (lng_double p1))
                    (js_add (js_add (Finite 2) (Math_sin sin_impl (lat_double p1)))
                       (Math_sin sin_impl (lat_double p2))))))
      else area)"
  by pat_completeness auto
termination
  by (relation "measure (\<lambda>(sin_impl, points, i, area). length points - i)") auto

declare area_loop_double.simps [simp del]

definition calculateArea_double :: "(real \<Rightarrow> real) \<Rightarrow> LatLng_double list \<Rightarrow> number" where
  "calculateArea_double sin_impl latlngs =
     (if length latlngs < 3 then Finite 0
      else
        (let points = map (\<lambda>ll. \<lparr>lat_double = toRad_double (lat_double ll),
                                   lng_double = toRad_double (lng_double ll)\<rparr>) latlngs;
             area = area_loop_double sin_impl points 0 (Finite 0)
         in js_abs (js_div_by (js_mul (js_mul area (Finite 6378137)) (Finite 6378137)) 2)))"

section \<open>Unit formatter (utils/mapUtils.ts)\<close>

definition sqMetersToHectares :: "number \<Rightarrow> number" where
  "sqMetersToHectares sqMeters = js_div_by sqMeters 10000"

definition sqMetersToSqKm :: "number \<Rightarrow> number" where
  "sqMetersToSqKm sqMeters = js_div_by sqMeters 1000000"

text \<open>
  \<^verbatim>\<open>Number.prototype.toFixed\<close> is a built-in of the language, modelled here from
  ECMA-262 (section Number.prototype.toFixed). A number that is not finite is printed
  by name. Otherwise let \<open>n\<close> be the integer for which \<open>n / 10^f - x\<close> is as close to
  zero as possible, the larger one if there are two: that is \<open>\<lfloor>x * 10^f + 1/2\<rfloor>\<close>, taken
  on the exact value of the double. Its decimal digits are padded on the left with
  zeros to \<open>f + 1\<close> characters and the point is put before the last \<open>f\<close> of them. A
  negative \<open>x\<close> is rendered as \<^verbatim>\<open>-\<close> followed by the rendering of \<open>- x\<close>. From
  \<open>10^21\<close> on the built-in gives the result of \<^verbatim>\<open>Number::toString\<close> instead (the
  shortest exponential notation that reads back as the same double); that function is
  the parameter \<open>numberToString\<close>. Both calls in \<^verbatim>\<open>formatArea\<close> pass a number of
  fraction digits in the allowed range 0 to 100.
\<close>

definition digit_char :: "nat \<Rightarrow> char" where
  "digit_char d = ''0123456789'' ! d"

fun digits :: "nat \<Rightarrow> string" where
  "digits n = (if n < 10 then [digit_char n] else digits (n div 10) @ [digit_char (n mod 10)])"

declare digits.simps [simp del]

definition toFixed_finite :: "(real \<Rightarrow> string) \<Rightarrow> real \<Rightarrow> nat \<Rightarrow> string" where
  "toFixed_finite numberToString x0 f =
     (let s = (if x0 < 0 then ''-'' else []);
          x = (if x0 < 0 then - x0 else x0)
      in if x \<ge> 10 ^ 21 then s @ numberToString x
         else
           (let n = nat \<lfloor>x * 10 ^ f + 1 / 2\<rfloor>;
                m = digits n
            in if f \<noteq> 0 then
                 (let k = length m;
                      m = (if k \<le> f then replicate (f + 1 - k) (CHR ''0'') @ m else m);
                      k = (if k \<le> f then f + 1 else k)
                  in s @ take (k - f) m @ ''.'' @ drop (k - f) m)
               else s @ m))"

fun toFixed :: "(real \<Rightarrow> string) \<Rightarrow> number \<Rightarrow> nat \<Rightarrow> string" where
  "toFixed numberToString NaN f = ''NaN''"
| "toFixed numberToString PosInf f = ''Infinity''"
| "toFixed numberToString NegInf f = ''-Infinity''"
| "toFixed numberToString (Finite x) f = toFixed_finite numberToString x f"

text \<open>
  The character U+00B2 (superscript two) of the suffixes for square metres and square
  kilometres: one code unit of the JavaScript string, one \<^typ>\<open>char\<close> here.
\<close>

definition superscript_two :: char where
  "superscript_two = CHR 0xB2"

definition formatArea :: "(real \<Rightarrow> string) \<Rightarrow> number \<Rightarrow> string" where
  "formatArea numberToString sqMeters =
     (if js_less sqMeters (Finite 10000) then
        toFixed numberToString sqMeters 2 @ '' m'' @ [superscript_two]
      else if js_less sqMeters (Finite 1000000) then
        toFixed numberToString (sqMetersToHectares sqMeters) 4 @ '' hectares''
      else
        toFixed numberToString (sqMetersToSqKm sqMeters) 2 @ '' km'' @ [superscript_two])"

section \<open>Duplicate detector (utils/mapUtils.ts)\<close>

text \<open>
  \<^verbatim>\<open>Array.prototype.every\<close> with a callback that takes the element and its index.
\<close>

fun every :: "('a \<Rightarrow> nat \<Rightarrow> bool) \<Rightarrow> 'a list \<Rightarrow> nat \<Rightarrow> bool" where
  "every callback [] index = True"
| "every callback (x # xs) index = (callback x index \<and> every callback xs (Suc index))"

text \<open>
  \<^verbatim>\<open>areCoordinatesEqual(coords1, coords2, tolerance = 0.000001)\<close>. The third argument
  is optional: \<open>None\<close> is a call without it. The read \<^verbatim>\<open>coords2[index]\<close> happens only
  after the length test, with \<open>index\<close> below the common length.
\<close>

definition areCoordinatesEqual :: "LatLng list \<Rightarrow> LatLng list \<Rightarrow> real option \<Rightarrow> bool" where
  "areCoordinatesEqual coords1 coords2 tolerance_arg =
     (let tolerance = (case tolerance_arg of None \<Rightarrow> 0.000001 | Some t \<Rightarrow> t)
      in if length coords1 \<noteq> length coords2 then False
         else every (\<lambda>coord index.
                let otherCoord = coords2 ! index;
                    latMatch = \<bar>lat coord - lat otherCoord\<bar> < tolerance;
                    lngMatch = \<bar>lng coord - lng otherCoord\<bar> < tolerance
                in latMatch \<and> lngMatch) coords1 0)"

section \<open>Feature registry (components/map-with-drawing.tsx)\<close>

text \<open>
  The layer objects of the mapping library. A \<^verbatim>\<open>L.Polygon\<close> holds its outer ring
  (\<^verbatim>\<open>getLatLngs()[0]\<close>) and its holes, a \<^verbatim>\<open>L.Rectangle\<close> its ring, a
  \<^verbatim>\<open>L.Polyline\<close> its points (\<^verbatim>\<open>getLatLngs()\<close>), a \<^verbatim>\<open>L.Marker\<close> its position
  (\<^verbatim>\<open>getLatLng()\<close>); \<open>L_Layer\<close> is any other layer. In the library
  \<^verbatim>\<open>L.Rectangle\<close> extends \<^verbatim>\<open>L.Polygon\<close>, which extends \<^verbatim>\<open>L.Polyline\<close>, and
  \<^verbatim>\<open>instanceof\<close> follows the inheritance chain.
\<close>

datatype leaflet_layer =
    L_Polygon "LatLng list" "LatLng list list"
  | L_Rectangle "LatLng list"
  | L_Polyline "LatLng list"
  | L_Marker LatLng
  | L_Layer

fun instanceof_Rectangle :: "leaflet_layer \<Rightarrow> bool" where
  "instanceof_Rectangle (L_Rectangle ring) = True"
| "instanceof_Rectangle other = False"

fun instanceof_Polygon :: "leaflet_layer \<Rightarrow> bool" where
  "instanceof_Polygon (L_Polygon ring holes) = True"
| "instanceof_Polygon (L_Rectangle ring) = True"
| "instanceof_Polygon other = False"

fun instanceof_Polyline :: "leaflet_layer \<Rightarrow> bool" where
  "instanceof_Polyline (L_Polyline latlngs) = True"
| "instanceof_Polyline (L_Polygon ring holes) = True"
| "instanceof_Polyline (L_Rectangle ring) = True"
| "instanceof_Polyline other = False"

fun instanceof_Marker :: "leaflet_layer \<Rightarrow> bool" where
  "instanceof_Marker (L_Marker latlng) = True"
| "instanceof_Marker other = False"

text \<open>
  The accessors are called under the matching \<^verbatim>\<open>instanceof\<close> test only; they are
  left unspecified on the other layers.
\<close>

fun getLatLngs_0 :: "leaflet_layer \<Rightarrow> LatLng list" where
  "getLatLngs_0 (L_Polygon ring holes) = ring"
| "getLatLngs_0 (L_Rectangle ring) = ring"

fun getLatLngs :: "leaflet_layer \<Rightarrow> LatLng list" where
  "getLatLngs (L_Polyline latlngs) = latlngs"

fun getLatLng :: "leaflet_layer \<Rightarrow> LatLng" where
  "getLatLng (L_Marker latlng) = latlng"

text \<open>
  A layer is referred to by the identity of its object; \<^verbatim>\<open>feature.layer === e.layer\<close>
  compares references. The objects belong to the drawing plugin, which changes their
  coordinates when the user edits a shape: the handlers read them through a store.
\<close>

type_synonym layer_ref = nat

type_synonym layer_store = "layer_ref \<Rightarrow> leaflet_layer"

datatype feature_type = polygon | polyline | marker | rectangle

datatype layer_type = workArea_layer | record_layer

datatype draw_mode = workArea_mode | record_mode | edit_mode

record DrawnFeature =
  feature_id :: string
  feature_type :: feature_type
  area :: "real option"
  coordinates :: "LatLng list"
  layer :: layer_ref
  layerType :: layer_type

text \<open>
  The state of the component that the handlers read and write: the React state
  \<^verbatim>\<open>drawnFeatures\<close>, \<^verbatim>\<open>selectedFeatureId\<close> and \<^verbatim>\<open>drawMode\<close> (\<open>None\<close> is
  \<^verbatim>\<open>null\<close>), the layers shown on the map, the members of the two layer groups, the
  click handlers put on layers, and the calls made to the callback
  \<^verbatim>\<open>onPolygonChange\<close>. The effect that installs the handlers depends on
  \<^verbatim>\<open>drawnFeatures\<close> and \<^verbatim>\<open>drawMode\<close>, so a handler sees the state of the last render:
  events are handled one after the other, each on the state the previous one left.
\<close>

record component_state =
  drawnFeatures :: "DrawnFeature list"
  selectedFeatureId :: "string option"
  drawMode :: "draw_mode option"
  mapLayers :: "layer_ref set"
  workAreaLayer :: "layer_ref set"
  recordLayer :: "layer_ref set"
  clickHandlers :: "(layer_ref \<times> string) list"
  polygonChanges :: "(LatLng list \<times> real option) list"

text \<open>
  The state at mount: \<^verbatim>\<open>useState<DrawnFeature[]>([])\<close>, \<^verbatim>\<open>useState(null)\<close> for the
  selected feature and the draw mode, and nothing drawn yet.
\<close>

definition initial_state :: component_state where
  "initial_state =
     \<lparr>drawnFeatures = [], selectedFeatureId = None, drawMode = None, mapLayers = {},
      workAreaLayer = {}, recordLayer = {}, clickHandlers = [], polygonChanges = []\<rparr>"

definition isDuplicateFeature :: "LatLng list \<Rightarrow> DrawnFeature list \<Rightarrow> bool" where
  "isDuplicateFeature newCoordinates existingFeatures =
     list_ex (\<lambda>feature. areCoordinatesEqual (coordinates feature) newCoordinates None)
       existingFeatures"

text \<open>\<^verbatim>\<open>latlngs.map((ll) => ({ lat: ll.lat, lng: ll.lng }))\<close>\<close>

definition plain_coordinates :: "LatLng list \<Rightarrow> LatLng list" where
  "plain_coordinates latlngs = map (\<lambda>ll. \<lparr>lat = lat ll, lng = lng ll\<rparr>) latlngs"

text \<open>\<^verbatim>\<open>map.removeLayer(layer)\<close>\<close>

definition map_removeLayer :: "layer_ref \<Rightarrow> component_state \<Rightarrow> component_state" where
  "map_removeLayer l st = st\<lparr>mapLayers := mapLayers st - {l}\<rparr>"

text \<open>
  \<^verbatim>\<open>targetLayer.addLayer(layer)\<close>: the layer joins the group, and the map, on which
  both groups are.
\<close>

definition targetLayer_addLayer ::
  "layer_type \<Rightarrow> layer_ref \<Rightarrow> component_state \<Rightarrow> component_state" where
  "targetLayer_addLayer targetLayerType l st =
     (if targetLayerType = record_layer
      then st\<lparr>recordLayer := insert l (recordLayer st), mapLayers := insert l (mapLayers st)\<rparr>
      else st\<lparr>workAreaLayer := insert l (workAreaLayer st),
              mapLayers := insert l (mapLayers st)\<rparr>)"

text \<open>\<^verbatim>\<open>onPolygonChange?.(coordinates, area)\<close>\<close>

definition onPolygonChange ::
  "LatLng list \<Rightarrow> real option \<Rightarrow> component_state \<Rightarrow> component_state" where
  "onPolygonChange cs a st = st\<lparr>polygonChanges := polygonChanges st @ [(cs, a)]\<rparr>"

text \<open>
  The end of \<^verbatim>\<open>handleCreate\<close>:
  \<^verbatim>\<open>setDrawnFeatures((prev) => [...prev, featureData!]); setSelectedFeatureId(id)\<close>.
\<close>

definition register_feature :: "DrawnFeature \<Rightarrow> component_state \<Rightarrow> component_state" where
  "register_feature featureData st =
     st\<lparr>drawnFeatures := drawnFeatures st @ [featureData],
        selectedFeatureId := Some (feature_id featureData)\<rparr>"

text \<open>
  \<^verbatim>\<open>handleCreate\<close> (lines 295 to 398). The event is \<open>None\<close> when \<^verbatim>\<open>e\<close> or
  \<^verbatim>\<open>e.layer\<close> is missing. The identifier
  \<^verbatim>\<open>feature-${Date.now()}-${Math.random()}\<close> comes from the clock and the random
  generator, and is an argument here.
\<close>

definition handleCreate ::
  "layer_store \<Rightarrow> component_state \<Rightarrow> layer_ref option \<Rightarrow> string \<Rightarrow> component_state" where
  "handleCreate objects st e new_id =
     (case e of
        None \<Rightarrow> st
      | Some l \<Rightarrow>
         (let targetLayerType =
                (if drawMode st = Some record_mode then record_layer else workArea_layer);
              st1 = st\<lparr>clickHandlers := clickHandlers st @ [(l, new_id)]\<rparr>
          in
          if instanceof_Polygon (objects l) then
            (let latlngs = getLatLngs_0 (objects l);
                 area = calculateArea latlngs;
                 coordinates = plain_coordinates latlngs
             in if isDuplicateFeature coordinates (drawnFeatures st) then map_removeLayer l st1
                else
                  (let featureData =
                         \<lparr>feature_id = new_id, feature_type = polygon, area = Some area,
                          coordinates = coordinates, layer = l, layerType = targetLayerType\<rparr>;
                       st2 = targetLayer_addLayer targetLayerType l st1;
                       st3 = (if targetLayerType = workArea_layer
                              then onPolygonChange coordinates (Some area) st2 else st2)
                   in register_feature featureData st3))
          else if instanceof_Polyline (objects l) then
            (let latlngs = getLatLngs (objects l);
                 coordinates = plain_coordinates latlngs
             in if isDuplicateFeature coordinates (drawnFeatures st) then map_removeLayer l st1
                else
                  (let featureData =
                         \<lparr>feature_id = new_id, feature_type = polyline, area = None,
                          coordinates = coordinates, layer = l, layerType = targetLayerType\<rparr>;
                       st2 = targetLayer_addLayer targetLayerType l st1
                   in register_feature featureData st2))
          else if instanceof_Marker (objects l) then
            (let latlng = getLatLng (objects l);
                 coordinates = [\<lparr>lat = lat latlng, lng = lng latlng\<rparr>]
             in if isDuplicateFeature coordinates (drawnFeatures st) then map_removeLayer l st1
                else
                  (let featureData =
                         \<lparr>feature_id = new_id, feature_type = marker, area = None,
                          coordinates = coordinates, layer = l, layerType = targetLayerType\<rparr>;
                       st2 = targetLayer_addLayer targetLayerType l st1
                   in register_feature featureData st2))
          else if instanceof_Rectangle (objects l) then
            (let latlngs = getLatLngs_0 (objects l);
                 area = calculateArea latlngs;
                 coordinates = plain_coordinates latlngs
             in if isDuplicateFeature coordinates (drawnFeatures st) then map_removeLayer l st1
                else
                  (let featureData =
                         \<lparr>feature_id = new_id, feature_type = rectangle, area = Some area,
                          coordinates = coordinates, layer = l, layerType = targetLayerType\<rparr>;
                       st2 = targetLayer_addLayer targetLayerType l st1
                   in register_feature featureData st2))
          else st1))"

text \<open>
  \<^verbatim>\<open>handleEdit\<close> (lines 400 to 428): every entry whose layer is the edited one is
  rebuilt from the layer's present coordinates.
\<close>

definition edit_feature :: "layer_store \<Rightarrow> layer_ref \<Rightarrow> DrawnFeature \<Rightarrow> DrawnFeature" where
  "edit_feature objects e_layer feature =
     (if layer feature = e_layer then
        (if instanceof_Polygon (objects (layer feature))
            \<or> instanceof_Rectangle (objects (layer feature)) then
           (let latlngs = getLatLngs_0 (objects (layer feature));
                a = calculateArea latlngs;
                cs = plain_coordinates latlngs
            in feature\<lparr>area := Some a, coordinates := cs\<rparr>)
         else if instanceof_Polyline (objects (layer feature)) then
           (let latlngs = getLatLngs (objects (layer feature));
                cs = plain_coordinates latlngs
            in feature\<lparr>coordinates := cs\<rparr>)
         else if instanceof_Marker (objects (layer feature)) then
           (let latlng = getLatLng (objects (layer feature));
                cs = [\<lparr>lat = lat latlng, lng = lng latlng\<rparr>]
            in feature\<lparr>coordinates := cs\<rparr>)
         else feature)
      else feature)"

definition handleEdit ::
  "layer_store \<Rightarrow> component_state \<Rightarrow> layer_ref option \<Rightarrow> component_state" where
  "handleEdit objects st e =
     (case e of
        None \<Rightarrow> st
      | Some e_layer \<Rightarrow>
          st\<lparr>drawnFeatures := map (edit_feature objects e_layer) (drawnFeatures st)\<rparr>)"

section \<open>GeoJSON of one feature (components/map-with-drawing.tsx)\<close>

text \<open>
  The value of \<^verbatim>\<open>coordinates\<close> is a number or an array; \<^verbatim>\<open>copyFeatureGeoJSON\<close>
  (lines 716 to 739) builds the object below and hands it to \<^verbatim>\<open>JSON.stringify\<close> and
  the clipboard, which are not modelled. Reading \<^verbatim>\<open>feature.coordinates[0].lng\<close> of a
  marker without coordinates throws a \<^verbatim>\<open>TypeError\<close>.
\<close>

datatype json_value = Num real | Arr "json_value list"

datatype js_error = TypeError

record geojson_geometry =
  geometry_type :: string
  geometry_coordinates :: json_value

record geojson_properties =
  properties_area :: "real option"

record geojson_feature =
  geojson_type :: string
  geometry :: geojson_geometry
  properties :: geojson_properties

definition lng_lat :: "LatLng \<Rightarrow> json_value" where
  "lng_lat c = Arr [Num (lng c), Num (lat c)]"

definition copyFeatureGeoJSON :: "DrawnFeature \<Rightarrow> js_error + geojson_feature" where
  "copyFeatureGeoJSON feature =
     (let gtype =
            (if feature_type feature = polygon \<or> feature_type feature = rectangle
             then ''Polygon''
             else if feature_type feature = polyline then ''LineString'' else ''Point'');
          gcoordinates =
            (if feature_type feature = marker then
               (case coordinates feature of
                  [] \<Rightarrow> Inl TypeError
                | c # cs \<Rightarrow> Inr (lng_lat c))
             else if feature_type feature = polygon \<or> feature_type feature = rectangle
             then Inr (Arr [Arr (map lng_lat (coordinates feature))])
             else Inr (Arr (map lng_lat (coordinates feature))))
      in case gcoordinates of
           Inl err \<Rightarrow> Inl err
         | Inr cs \<Rightarrow>
             Inr \<lparr>geojson_type = ''Feature'',
                  geometry = \<lparr>geometry_type = gtype, geometry_coordinates = cs\<rparr>,
                  properties = \<lparr>properties_area = area feature\<rparr>\<rparr>)"

section \<open>Auxiliary notions for the statements\<close>

text \<open>The summand of the area loop for the consecutive points \<open>p1\<close> and \<open>p2\<close>.\<close>

definition edge_term :: "LatLng \<Rightarrow> LatLng \<Rightarrow> real" where
  "edge_term p1 p2 = (lng p2 - lng p1) * (2 + sin (lat p1) + sin (lat p2))"

text \<open>The sum of the summands over a ring closed by pairing its last point with its first.\<close>

definition cyc_sum :: "LatLng list \<Rightarrow> real" where
  "cyc_sum ps = sum_list (map (\<lambda>(p, q). edge_term p q) (zip ps (rotate1 ps)))"

definition to_radians :: "LatLng \<Rightarrow> LatLng" where
  "to_radians ll = \<lparr>lat = toRad (lat ll), lng = toRad (lng ll)\<rparr>"

text \<open>
  The double summand of the loop for the edge from \<open>p1\<close> to \<open>p2\<close>, and the
  summands of a ring in the order in which the loop adds them.
\<close>

definition edge_term_double :: "(real \<Rightarrow> real) \<Rightarrow> LatLng_double \<Rightarrow> LatLng_double \<Rightarrow> number" where
  "edge_term_double sin_impl p1 p2 =
     js_mul (js_sub (lng_double p2) (lng_double p1))
       (js_add (js_add (Finite 2) (Math_sin sin_impl (lat_double p1)))
          (Math_sin sin_impl (lat_double p2)))"

definition to_radians_double :: "LatLng_double \<Rightarrow> LatLng_double" where
  "to_radians_double ll =
     \<lparr>lat_double = toRad_double (lat_double ll), lng_double = toRad_double (lng_double ll)\<rparr>"

definition summands_double :: "(real \<Rightarrow> real) \<Rightarrow> LatLng_double list \<Rightarrow> number list" where
  "summands_double sin_impl ring =
     map (\<lambda>(p, q). edge_term_double sin_impl p q)
       (zip (map to_radians_double ring) (rotate1 (map to_radians_double ring)))"

text \<open>Two coordinates agree within the tolerance \<open>t\<close>, in latitude and in longitude.\<close>

definition close_to :: "real \<Rightarrow> LatLng \<Rightarrow> LatLng \<Rightarrow> bool" where
  "close_to t p q = (\<bar>lat p - lat q\<bar> < t \<and> \<bar>lng p - lng q\<bar> < t)"

text \<open>
  The number \<open>n / 10^f\<close> written with exactly \<open>f\<close> decimal places: the digits of the
  integer part, then, when \<open>f\<close> is not 0, the point and the \<open>f\<close> digits of the
  fractional part, leading zeros kept.
\<close>

fun frac_digits :: "nat \<Rightarrow> nat \<Rightarrow> string" where
  "frac_digits r 0 = []"
| "frac_digits r (Suc f) = frac_digits (r div 10) f @ [digit_char (r mod 10)]"

definition decimal :: "nat \<Rightarrow> nat \<Rightarrow> string" where
  "decimal n f =
     digits (n div 10 ^ f) @ (if f = 0 then [] else ''.'' @ frac_digits (n mod 10 ^ f) f)"

text \<open>The coordinate sequence that \<^verbatim>\<open>handleCreate\<close> computes for a layer.\<close>

fun layer_coordinates :: "leaflet_layer \<Rightarrow> LatLng list" where
  "layer_coordinates (L_Polygon ring holes) = ring"
| "layer_coordinates (L_Rectangle ring) = ring"
| "layer_coordinates (L_Polyline latlngs) = latlngs"
| "layer_coordinates (L_Marker latlng) = [latlng]"
| "layer_coordinates L_Layer = []"

text \<open>
  Every marker of the registry has a marker layer and at least one coordinate; the
  class of a layer object never changes.
\<close>

definition markers_ok :: "layer_store \<Rightarrow> component_state \<Rightarrow> bool" where
  "markers_ok objects st =
     list_all (\<lambda>f. feature_type f \<noteq> marker \<or>
                  (instanceof_Marker (objects (layer f)) \<and> coordinates f \<noteq> []))
       (drawnFeatures st)"

section \<open>Properties of the area calculator\<close>

lemma area_loop_sum:
  "i \<le> length ps \<Longrightarrow>
   area_loop ps i a =
     a + (\<Sum>j = i..<length ps. edge_term (ps ! j) (ps ! ((j + 1) mod length ps)))"
proof (induction ps i a rule: area_loop.induct)
  case (1 points i area)
  show ?case
  proof (cases "i < length points")
    case True
    then have le: "i + 1 \<le> length points" by simp
    have "area_loop points i area =
        area_loop points (i + 1)
          (area + edge_term (points ! i) (points ! ((i + 1) mod length points)))"
      using True by (subst area_loop.simps) (simp add: edge_term_def Let_def)
    also have "\<dots> = area + edge_term (points ! i) (points ! ((i + 1) mod length points))
        + (\<Sum>j = i + 1..<length points.
             edge_term (points ! j) (points ! ((j + 1) mod length points)))"
      using "1.IH" [OF True refl refl le] by (simp add: edge_term_def)
    also have "\<dots> = area + (\<Sum>j = i..<length points.
             edge_term (points ! j) (points ! ((j + 1) mod length points)))"
      using True by (simp add: sum.atLeast_Suc_lessThan)
    finally show ?thesis .
  next
    case False
    with "1.prems" have "i = length points" by simp
    then show ?thesis by (subst area_loop.simps) simp
  qed
qed

lemma area_loop_cyc_sum: "area_loop ps 0 0 = cyc_sum ps"
proof -
  have "map (\<lambda>(p, q). edge_term p q) (zip ps (rotate1 ps)) =
        map (\<lambda>j. edge_term (ps ! j) (ps ! ((j + 1) mod length ps))) [0..<length ps]"
    by (rule nth_equalityI) (simp_all add: nth_rotate1)
  then show ?thesis
    by (simp add: cyc_sum_def area_loop_sum interv_sum_list_conv_sum_set_nat)
qed

lemma calculateArea_cyc_sum:
  "calculateArea ring =
     (if length ring < 3 then 0
      else \<bar>(cyc_sum (map to_radians ring) * EARTH_RADIUS * EARTH_RADIUS) / 2\<bar>)"
  by (simp add: calculateArea_def area_loop_cyc_sum to_radians_def [abs_def])

lemma zip_rotate1:
  "length xs = length ys \<Longrightarrow> zip (rotate1 xs) (rotate1 ys) = rotate1 (zip xs ys)"
  by (cases xs; cases ys) simp_all

lemma sum_list_rotate1: "sum_list (rotate1 xs) = sum_list (xs :: real list)"
  by (cases xs) simp_all

lemma cyc_sum_rotate1: "cyc_sum (rotate1 ps) = cyc_sum ps"
proof -
  have "zip (rotate1 ps) (rotate1 (rotate1 ps)) = rotate1 (zip ps (rotate1 ps))"
    by (rule zip_rotate1) simp
  then show ?thesis
    by (simp add: cyc_sum_def rotate1_map [symmetric] sum_list_rotate1 del: rotate1_map)
qed

lemma cyc_sum_rotate: "cyc_sum (rotate k ps) = cyc_sum ps"
  by (induction k) (simp_all add: cyc_sum_rotate1)

lemma edge_term_swap: "edge_term q p = - edge_term p q"
  by (simp add: edge_term_def algebra_simps)

text \<open>
  Reversing the ring pairs every point with its former predecessor: each summand changes
  its sign, and the pairs are those of the ring started one point earlier.
\<close>

lemma cyc_sum_rev: "cyc_sum (rev ps) = - cyc_sum ps"
proof (cases ps rule: rev_cases)
  case Nil
  then show ?thesis by (simp add: cyc_sum_def)
next
  case (snoc ys y)
  define qs where "qs = y # ys"
  have len: "length qs = length ps" by (simp add: qs_def snoc)
  have ps: "ps = rotate1 qs" by (simp add: qs_def snoc)
  have r: "rotate1 (rev ps) = rev qs" by (simp add: qs_def snoc)
  have "cyc_sum (rev ps) = sum_list (rev (map (\<lambda>(p, q). edge_term p q) (zip ps qs)))"
    using len by (simp add: cyc_sum_def r zip_rev rev_map)
  also have "\<dots> = sum_list (map (\<lambda>(p, q). edge_term p q) (zip ps qs))"
    by (simp only: sum_list_rev)
  also have "\<dots> = - sum_list (map (\<lambda>(q, p). edge_term q p) (zip qs ps))"
  proof (induction ps qs rule: list_induct2')
    case (4 a as b bs)
    then show ?case by (simp add: edge_term_swap [of b a])
  qed simp_all
  also have "\<dots> = - cyc_sum qs"
    by (simp add: cyc_sum_def ps)
  also have "\<dots> = - cyc_sum ps"
    by (simp add: ps cyc_sum_rotate1)
  finally show ?thesis .
qed




text \<open>
  Claim C6. A coordinate sequence of fewer than 3 points, the empty sequence and a single
  point among them, has the area 0: \<^verbatim>\<open>calculateArea\<close> returns it and raises no error.
\<close>

theorem calculateArea_fewer_than_3:
  "(length ring < 3 \<longrightarrow> calculateArea ring = 0) \<and>
   calculateArea [] = 0 \<and> calculateArea [p] = 0"
  by (simp add: calculateArea_def)

theorem calculateArea_fewer_than_3_witness:
  "length [\<lparr>lat = 1, lng = 2\<rparr>, \<lparr>lat = 3, lng = 4\<rparr>] < 3 \<and>
   calculateArea [\<lparr>lat = 1, lng = 2\<rparr>, \<lparr>lat = 3, lng = 4\<rparr>] = 0"
  using calculateArea_fewer_than_3 [of "[\<lparr>lat = 1, lng = 2\<rparr>, \<lparr>lat = 3, lng = 4\<rparr>]"]
  by simp

section \<open>Properties of the binary64 operations\<close>

lemma search_down_step:
  "0 < n \<Longrightarrow> a < 2 ^ 52 * u \<Longrightarrow> search_down n a u = search_down (n - 1) a (u / 2)"
  by (cases n) simp_all

lemma search_down_stop: "2 ^ 52 * u \<le> a \<Longrightarrow> search_down n a u = u"
  by (cases n) simp_all

lemma search_up_step:
  "0 < n \<Longrightarrow> 2 ^ 53 * u \<le> a \<Longrightarrow> search_up n a u = search_up (n - 1) a (2 * u)"
  by (cases n) simp_all

lemma search_up_stop: "a < 2 ^ 53 * u \<Longrightarrow> search_up n a u = u"
  by (cases n) simp_all

text \<open>The rules that evaluate a rounding at a given number, arguments first.\<close>

lemmas double_eval = search_down_step search_down_stop search_up_step search_up_stop
  ulp_def overflow_def nearest_def round_double_def half_even_def tie_to_even_def

lemma js_add_NaN_right [simp]: "js_add x NaN = NaN"
  by (cases x) simp_all

lemma js_mul_NaN_right [simp]: "js_mul x NaN = NaN"
  by (cases x) simp_all

lemma js_sub_NaN [simp]: "js_sub x NaN = NaN" "js_sub NaN y = NaN"
  by (simp_all add: js_sub_def)

lemma toRad_double_NaN [simp]: "toRad_double NaN = NaN"
  by (simp add: toRad_double_def)

lemma js_abs_not_negative: "\<not> js_less (js_abs x) (Finite 0)"
  by (cases x) simp_all

text \<open>
  Rounding moves a value by at most half the spacing, and the spacing of the doubles
  around \<open>a\<close> is at most \<open>max 1 (a / 2^52)\<close>.
\<close>

lemma half_even_le: "of_int (half_even q) \<le> q + 1 / 2"
  unfolding half_even_def tie_to_even_def by (auto simp: not_less) linarith+

lemma half_even_nonneg: "0 \<le> q \<Longrightarrow> 0 \<le> half_even q"
  unfolding half_even_def tie_to_even_def by (auto simp: not_less)

lemma search_up_pos: "0 < u \<Longrightarrow> 0 < search_up n a u"
  by (induction n arbitrary: u) simp_all

lemma search_down_pos: "0 < u \<Longrightarrow> 0 < search_down n a u"
  by (induction n arbitrary: u) simp_all

lemma search_up_le: "search_up n a u \<le> max u (a / 2 ^ 52)"
proof (induction n arbitrary: u)
  case 0
  show ?case by simp
next
  case (Suc n)
  show ?case
  proof (cases "2 ^ 53 * u \<le> a")
    case True
    then have "2 * u \<le> a / 2 ^ 52" by (simp add: field_simps)
    with Suc.IH [of "2 * u"] True show ?thesis by simp
  next
    case False
    then show ?thesis by simp
  qed
qed

lemma search_down_le: "0 < u \<Longrightarrow> search_down n a u \<le> u"
proof (induction n arbitrary: u)
  case 0
  show ?case by simp
next
  case (Suc n)
  from Suc.IH [of "u / 2"] Suc.prems show ?case by (simp add: field_simps) 
qed

lemma ulp_pos: "0 < ulp a"
  by (simp add: ulp_def search_up_pos search_down_pos)

lemma ulp_le: "ulp a \<le> max 1 (a / 2 ^ 52)"
  using search_up_le [of 1024 a 1] search_down_le [of 1 1074 a]
  by (auto simp: ulp_def max_def)

lemma round_double_bounded:
  assumes "0 \<le> x" "x \<le> 10 ^ 20"
  shows "\<exists>q. round_double x = Finite q \<and> 0 \<le> q \<and> q < 10 ^ 21"
proof (cases "x = 0")
  case True
  then show ?thesis by (simp add: round_double_def)
next
  case False
  with assms have pos: "0 < x" by simp
  define u where "u = ulp x"
  define r where "r = of_int (half_even (x / u)) * u"
  have u: "0 < u" by (simp add: u_def ulp_pos)
  have "u \<le> max 1 (x / 2 ^ 52)" unfolding u_def by (rule ulp_le)
  moreover have "x / 2 ^ 52 \<le> x" using assms(1) by (simp add: field_simps)
  ultimately have ule: "u \<le> 10 ^ 20" using assms(2) by (simp add: max_def split: if_splits)
  have "0 \<le> x / u" using pos u by simp
  then have "0 \<le> half_even (x / u)" by (rule half_even_nonneg)
  with u have r0: "0 \<le> r" by (simp add: r_def)
  have "r \<le> (x / u + 1 / 2) * u"
    unfolding r_def using half_even_le [of "x / u"] u by (intro mult_right_mono) simp_all
  also have "\<dots> = x + u / 2" using u by (simp add: field_simps)
  also have "\<dots> < 10 ^ 21" using assms ule by simp
  finally have r1: "r < 10 ^ 21" .
  have "(10::real) ^ 21 < 2 ^ 1024" by simp
  with r1 have "\<not> 2 ^ 1024 \<le> r" by simp
  with pos r0 r1 show ?thesis
    by (simp add: round_double_def nearest_def overflow_def u_def r_def)
qed

lemma round_double_nonneg:
  assumes "0 \<le> x" "round_double x = Finite q"
  shows "0 \<le> q"
proof (cases "x = 0")
  case True
  with assms show ?thesis by (simp add: round_double_def)
next
  case False
  with assms have pos: "0 < x" by simp
  have "0 \<le> x / ulp x" using pos ulp_pos [of x] by simp
  then have "0 \<le> half_even (x / ulp x)" by (rule half_even_nonneg)
  then have "0 \<le> of_int (half_even (x / ulp x)) * ulp x"
    using ulp_pos [of x] by simp
  with assms pos show ?thesis
    by (auto simp: round_double_def nearest_def overflow_def split: if_splits)
qed

section \<open>Properties of the area on doubles\<close>

lemma area_loop_double_step:
  "i < length points \<Longrightarrow>
   area_loop_double s points i acc =
     area_loop_double s points (i + 1)
       (js_add acc
          (js_mul (js_sub (lng_double (points ! ((i + 1) mod length points)))
                          (lng_double (points ! i)))
             (js_add (js_add (Finite 2) (Math_sin s (lat_double (points ! i))))
                (Math_sin s (lat_double (points ! ((i + 1) mod length points)))))))"
  by (subst area_loop_double.simps) (simp add: Let_def)

lemma area_loop_double_stop:
  "length points \<le> i \<Longrightarrow> area_loop_double s points i acc = acc"
  by (subst area_loop_double.simps) simp

lemma calculateArea_double_eval:
  "3 \<le> length latlngs \<Longrightarrow>
   calculateArea_double s latlngs =
     js_abs (js_div_by (js_mul (js_mul
       (area_loop_double s
          (map (\<lambda>ll. \<lparr>lat_double = toRad_double (lat_double ll),
                      lng_double = toRad_double (lng_double ll)\<rparr>) latlngs) 0 (Finite 0))
       (Finite 6378137)) (Finite 6378137)) 2)"
  by (simp add: calculateArea_double_def)

text \<open>The loop adds the summands of the edges from left to right, starting from 0.\<close>

lemma area_loop_double_foldl:
  "i \<le> length ps \<Longrightarrow>
   area_loop_double s ps i acc =
     foldl js_add acc
       (map (\<lambda>j. edge_term_double s (ps ! j) (ps ! ((j + 1) mod length ps))) [i..<length ps])"
proof (induction s ps i acc rule: area_loop_double.induct)
  case (1 s points i acc)
  show ?case
  proof (cases "i < length points")
    case True
    then have le: "i + 1 \<le> length points" by simp
    from True have up: "[i..<length points] = i # [i + 1..<length points]"
      by (simp add: upt_conv_Cons)
    show ?thesis
      using "1.IH" [OF True refl refl le]
      by (simp add: area_loop_double_step [OF True] up edge_term_double_def)
  next
    case False
    with "1.prems" show ?thesis by (simp add: area_loop_double_stop)
  qed
qed

lemma area_loop_double_summands:
  "area_loop_double s (map to_radians_double ring) 0 (Finite 0) =
     foldl js_add (Finite 0) (summands_double s ring)"
proof -
  let ?ps = "map to_radians_double ring"
  have "map (\<lambda>(p, q). edge_term_double s p q) (zip ?ps (rotate1 ?ps)) =
        map (\<lambda>j. edge_term_double s (?ps ! j) (?ps ! ((j + 1) mod length ?ps))) [0..<length ?ps]"
    by (rule nth_equalityI) (simp_all add: nth_rotate1)
  then show ?thesis
    using area_loop_double_foldl [of 0 ?ps s "Finite 0"] by (simp add: summands_double_def)
qed

lemma zip_rotate:
  "length xs = length ys \<Longrightarrow> zip (rotate k xs) (rotate k ys) = rotate k (zip xs ys)"
  by (induction k) (simp_all add: zip_rotate1)

lemma summands_double_rotate:
  "summands_double s (rotate k ring) = rotate k (summands_double s ring)"
proof -
  let ?ps = "map to_radians_double ring"
  have "zip (rotate k ?ps) (rotate1 (rotate k ?ps)) = rotate k (zip ?ps (rotate1 ?ps))"
    by (simp add: rotate1_rotate_swap zip_rotate)
  then show ?thesis
    by (simp add: summands_double_def rotate_map)
qed

lemma calculateArea_double_summands:
  "3 \<le> length ring \<Longrightarrow>
   calculateArea_double s ring =
     js_abs (js_div_by (js_mul (js_mul (foldl js_add (Finite 0) (summands_double s ring))
       (Finite 6378137)) (Finite 6378137)) 2)"
  using area_loop_double_summands [of s ring]
  by (simp add: calculateArea_double_eval to_radians_double_def [abs_def])

text \<open>Once the accumulator is NaN it stays NaN.\<close>

lemma area_loop_double_NaN: "area_loop_double s points i NaN = NaN"
proof (induction s points i "NaN :: number" rule: area_loop_double.induct)
  case (1 s points i)
  show ?case
  proof (cases "i < length points")
    case True
    then show ?thesis
      using "1.hyps" [OF True refl refl] by (simp add: area_loop_double_step)
  next
    case False
    then show ?thesis by (simp add: area_loop_double_stop)
  qed
qed

text \<open>A point with a NaN coordinate makes the summand of its edge NaN.\<close>

lemma area_loop_double_NaN_point:
  "i \<le> j \<Longrightarrow> j < length points \<Longrightarrow>
   lat_double (points ! j) = NaN \<or> lng_double (points ! j) = NaN \<Longrightarrow>
   area_loop_double s points i acc = NaN"
proof (induction s points i acc rule: area_loop_double.induct)
  case (1 s points i acc)
  from "1.prems" have lt: "i < length points" by simp
  show ?case
  proof (cases "i = j")
    case True
    with "1.prems"(3)
    have "js_add acc
            (js_mul (js_sub (lng_double (points ! ((i + 1) mod length points)))
                            (lng_double (points ! i)))
               (js_add (js_add (Finite 2) (Math_sin s (lat_double (points ! i))))
                  (Math_sin s (lat_double (points ! ((i + 1) mod length points)))))) = NaN"
      by auto
    then show ?thesis
      by (subst area_loop_double_step [OF lt]) (simp add: area_loop_double_NaN)
  next
    case False
    with "1.prems" have "i + 1 \<le> j" by simp
    from "1.IH" [OF lt refl refl this "1.prems"(2,3)] show ?thesis
      by (simp add: area_loop_double_step [OF lt])
  qed
qed

lemma calculateArea_double_NaN:
  assumes "3 \<le> length ring"
    and "p \<in> set ring"
    and "lat_double p = NaN \<or> lng_double p = NaN"
  shows "calculateArea_double s ring = NaN"
proof -
  let ?points = "map (\<lambda>ll. \<lparr>lat_double = toRad_double (lat_double ll),
                            lng_double = toRad_double (lng_double ll)\<rparr>) ring"
  from assms(2) obtain j where j: "j < length ring" "ring ! j = p"
    by (auto simp: in_set_conv_nth)
  with assms(3) have "lat_double (?points ! j) = NaN \<or> lng_double (?points ! j) = NaN"
    by auto
  with j(1) have "area_loop_double s ?points 0 (Finite 0) = NaN"
    by (intro area_loop_double_NaN_point [of 0 j]) simp_all
  with assms(1) show ?thesis
    by (simp add: calculateArea_double_eval)
qed

lemma calculateArea_double_not_negative:
  "\<not> js_less (calculateArea_double s ring) (Finite 0)"
  by (simp add: calculateArea_double_def Let_def js_abs_not_negative)

text \<open>
  Claim C5, as stated: for every ring of at least 3 points the area is the same for
  every rotation of the starting point and for the reversed ring, and it is not negative
  for any input. On the ring of the four points of latitude 0 and longitude 0, 1, 2
  and 3 degrees the code returns 0; started at its second point it returns
  \<open>40680631590769 / 2^58\<close> (about 0.00014), reversed \<open>40680631590769 / 2^57\<close> (about
  0.00028): the sums are rounded in the order of traversal. A ring with a NaN
  coordinate gives NaN, for which \<^verbatim>\<open>area >= 0\<close> is false.
\<close>

theorem rounding_order_counterexample:
  "calculateArea_double sin
     [\<lparr>lat_double = Finite 0, lng_double = Finite 0\<rparr>,
      \<lparr>lat_double = Finite 0, lng_double = Finite 1\<rparr>,
      \<lparr>lat_double = Finite 0, lng_double = Finite 2\<rparr>,
      \<lparr>lat_double = Finite 0, lng_double = Finite 3\<rparr>] = Finite 0 \<and>
   calculateArea_double sin
     (rotate 1
       [\<lparr>lat_double = Finite 0, lng_double = Finite 0\<rparr>,
        \<lparr>lat_double = Finite 0, lng_double = Finite 1\<rparr>,
        \<lparr>lat_double = Finite 0, lng_double = Finite 2\<rparr>,
        \<lparr>lat_double = Finite 0, lng_double = Finite 3\<rparr>])
     = Finite (40680631590769 / 288230376151711744) \<and>
   calculateArea_double sin
     (rev
       [\<lparr>lat_double = Finite 0, lng_double = Finite 0\<rparr>,
        \<lparr>lat_double = Finite 0, lng_double = Finite 1\<rparr>,
        \<lparr>lat_double = Finite 0, lng_double = Finite 2\<rparr>,
        \<lparr>lat_double = Finite 0, lng_double = Finite 3\<rparr>])
     = Finite (40680631590769 / 144115188075855872) \<and>
   calculateArea_double sin
     [\<lparr>lat_double = Finite 0, lng_double = Finite 0\<rparr>,
      \<lparr>lat_double = NaN, lng_double = Finite 1\<rparr>,
      \<lparr>lat_double = Finite 1, lng_double = Finite 1\<rparr>] = NaN \<and>
   js_less (Finite 0) NaN = False \<and> js_less NaN (Finite 0) = False"
proof (intro conjI)
  show "calculateArea_double sin
     [\<lparr>lat_double = Finite 0, lng_double = Finite 0\<rparr>,
      \<lparr>lat_double = Finite 0, lng_double = Finite 1\<rparr>,
      \<lparr>lat_double = Finite 0, lng_double = Finite 2\<rparr>,
      \<lparr>lat_double = Finite 0, lng_double = Finite 3\<rparr>] = Finite 0"
    by (simp add: calculateArea_double_eval area_loop_double_step area_loop_double_stop
        toRad_double_def Math_PI_def js_sub_def double_eval)
  show "calculateArea_double sin
     (rotate 1
       [\<lparr>lat_double = Finite 0, lng_double = Finite 0\<rparr>,
        \<lparr>lat_double = Finite 0, lng_double = Finite 1\<rparr>,
        \<lparr>lat_double = Finite 0, lng_double = Finite 2\<rparr>,
        \<lparr>lat_double = Finite 0, lng_double = Finite 3\<rparr>])
     = Finite (40680631590769 / 288230376151711744)"
    by (simp add: calculateArea_double_eval area_loop_double_step area_loop_double_stop
        toRad_double_def Math_PI_def js_sub_def double_eval)
  show "calculateArea_double sin
     (rev
       [\<lparr>lat_double = Finite 0, lng_double = Finite 0\<rparr>,
        \<lparr>lat_double = Finite 0, lng_double = Finite 1\<rparr>,
        \<lparr>lat_double = Finite 0, lng_double = Finite 2\<rparr>,
        \<lparr>lat_double = Finite 0, lng_double = Finite 3\<rparr>])
     = Finite (40680631590769 / 144115188075855872)"
    by (simp add: calculateArea_double_eval area_loop_double_step area_loop_double_stop
        toRad_double_def Math_PI_def js_sub_def double_eval)
  show "calculateArea_double sin
     [\<lparr>lat_double = Finite 0, lng_double = Finite 0\<rparr>,
      \<lparr>lat_double = NaN, lng_double = Finite 1\<rparr>,
      \<lparr>lat_double = Finite 1, lng_double = Finite 1\<rparr>] = NaN"
    by (rule calculateArea_double_NaN [of _ "\<lparr>lat_double = NaN, lng_double = Finite 1\<rparr>"])
       simp_all
qed simp_all

text \<open>
  Claim C5, amended. Evaluated exactly, the area formula gives the same value for every
  rotation of the starting point and for the reversed ring, and that value is not
  negative. The double that the code returns is the absolute value of a sum rounded
  in the order of traversal: it is never below zero, and it is NaN when a ring of at
  least 3 points has a NaN coordinate. For a rotated ring the code adds the same
  rounded summands, begun \<open>k\<close> places further on, so that the result agrees with the
  original up to the rounding of these additions only.
\<close>

theorem calculateArea_invariance_exact:
  "calculateArea (rotate k ring) = calculateArea ring \<and>
   calculateArea (rev ring) = calculateArea ring \<and>
   0 \<le> calculateArea ring \<and>
   \<not> js_less (calculateArea_double sin_impl dring) (Finite 0) \<and>
   (3 \<le> length dring \<and> (\<exists>p \<in> set dring. lat_double p = NaN \<or> lng_double p = NaN)
      \<longrightarrow> calculateArea_double sin_impl dring = NaN) \<and>
   (3 \<le> length dring \<longrightarrow>
      calculateArea_double sin_impl dring =
        js_abs (js_div_by (js_mul (js_mul
          (foldl js_add (Finite 0) (summands_double sin_impl dring))
          (Finite 6378137)) (Finite 6378137)) 2)) \<and>
   summands_double sin_impl (rotate k dring) = rotate k (summands_double sin_impl dring)"
proof -
  have "cyc_sum (map to_radians (rotate k ring)) = cyc_sum (map to_radians ring)"
    by (simp only: rotate_map [symmetric] cyc_sum_rotate)
  moreover have "cyc_sum (map to_radians (rev ring)) = - cyc_sum (map to_radians ring)"
    by (simp only: rev_map [symmetric] cyc_sum_rev)
  ultimately have exact: "calculateArea (rotate k ring) = calculateArea ring \<and>
      calculateArea (rev ring) = calculateArea ring \<and> 0 \<le> calculateArea ring"
    by (simp add: calculateArea_cyc_sum abs_mult)
  have nan: "3 \<le> length dring \<and> (\<exists>p \<in> set dring. lat_double p = NaN \<or> lng_double p = NaN)
      \<longrightarrow> calculateArea_double sin_impl dring = NaN"
    using calculateArea_double_NaN [of dring _ sin_impl] by blast
  from exact nan show ?thesis
    using calculateArea_double_not_negative [of sin_impl dring]
      calculateArea_double_summands [of dring sin_impl]
      summands_double_rotate [of sin_impl k dring]
    by blast
qed

theorem calculateArea_invariance_exact_witness:
  "calculateArea (rotate 1 [\<lparr>lat = 0, lng = 0\<rparr>, \<lparr>lat = 0, lng = 90\<rparr>, \<lparr>lat = 90, lng = 90\<rparr>])
     = calculateArea [\<lparr>lat = 0, lng = 0\<rparr>, \<lparr>lat = 0, lng = 90\<rparr>, \<lparr>lat = 90, lng = 90\<rparr>] \<and>
   calculateArea [\<lparr>lat = 90, lng = 90\<rparr>, \<lparr>lat = 0, lng = 90\<rparr>, \<lparr>lat = 0, lng = 0\<rparr>]
     = calculateArea [\<lparr>lat = 0, lng = 0\<rparr>, \<lparr>lat = 0, lng = 90\<rparr>, \<lparr>lat = 90, lng = 90\<rparr>] \<and>
   3 \<le> length [\<lparr>lat_double = Finite 0, lng_double = Finite 0\<rparr>,
                \<lparr>lat_double = Finite 0, lng_double = NaN\<rparr>,
                \<lparr>lat_double = Finite 1, lng_double = Finite 1\<rparr>] \<and>
   calculateArea_double sin
     [\<lparr>lat_double = Finite 0, lng_double = Finite 0\<rparr>,
      \<lparr>lat_double = Finite 0, lng_double = NaN\<rparr>,
      \<lparr>lat_double = Finite 1, lng_double = Finite 1\<rparr>] = NaN"
  using calculateArea_invariance_exact
    [of 1 "[\<lparr>lat = 0, lng = 0\<rparr>, \<lparr>lat = 0, lng = 90\<rparr>, \<lparr>lat = 90, lng = 90\<rparr>]" sin
       "[\<lparr>lat_double = Finite 0, lng_double = Finite 0\<rparr>,
         \<lparr>lat_double = Finite 0, lng_double = NaN\<rparr>,
         \<lparr>lat_double = Finite 1, lng_double = Finite 1\<rparr>]"]
  by simp

section \<open>Properties of the duplicate detector\<close>

lemma every_nth: "every callback xs k = (\<forall>i<length xs. callback (xs ! i) (k + i))"
proof (induction xs arbitrary: k)
  case Nil
  show ?case by simp
next
  case (Cons x xs)
  show ?case
    by (simp add: Cons.IH All_less_Suc2)
qed

lemma areCoordinatesEqual_iff:
  "areCoordinatesEqual a b (Some t) =
     (length a = length b \<and>
      (\<forall>i<length a. \<bar>lat (a ! i) - lat (b ! i)\<bar> < t \<and> \<bar>lng (a ! i) - lng (b ! i)\<bar> < t))"
  by (auto simp: areCoordinatesEqual_def every_nth Let_def)

lemma areCoordinatesEqual_default:
  "areCoordinatesEqual a b None = areCoordinatesEqual a b (Some (1 / 1000000))"
  by (simp add: areCoordinatesEqual_def)

text \<open>
  Claim C2. For all coordinate sequences \<open>a\<close> and \<open>b\<close> and every tolerance \<open>t\<close>,
  \<^verbatim>\<open>areCoordinatesEqual\<close> returns false when the lengths differ; when they agree it
  returns true if and only if at every index both the latitudes and the longitudes
  differ by strictly less than \<open>t\<close>. Called without a tolerance it uses 1e-6.
\<close>

theorem areCoordinatesEqual_spec:
  "(length a \<noteq> length b \<longrightarrow> areCoordinatesEqual a b (Some t) = False) \<and>
   (length a = length b \<longrightarrow>
      areCoordinatesEqual a b (Some t) =
        (\<forall>i<length a. \<bar>lat (a ! i) - lat (b ! i)\<bar> < t \<and> \<bar>lng (a ! i) - lng (b ! i)\<bar> < t)) \<and>
   areCoordinatesEqual a b None = areCoordinatesEqual a b (Some (1 / 1000000))"
  using areCoordinatesEqual_iff [of a b t] areCoordinatesEqual_default [of a b] by auto

text \<open>
  Differences of 0.0000005 are accepted, a difference of exactly 0.000001 is not, and
  neither is a sequence of another length.
\<close>

theorem areCoordinatesEqual_spec_witness:
  "length [\<lparr>lat = 0, lng = 0\<rparr>, \<lparr>lat = 1, lng = 1\<rparr>] =
     length [\<lparr>lat = 0.0000005, lng = 0\<rparr>, \<lparr>lat = 1, lng = 0.9999995\<rparr>] \<and>
   areCoordinatesEqual [\<lparr>lat = 0, lng = 0\<rparr>, \<lparr>lat = 1, lng = 1\<rparr>]
     [\<lparr>lat = 0.0000005, lng = 0\<rparr>, \<lparr>lat = 1, lng = 0.9999995\<rparr>] (Some (1 / 1000000)) \<and>
   \<not> areCoordinatesEqual [\<lparr>lat = 0, lng = 0\<rparr>, \<lparr>lat = 1, lng = 1\<rparr>]
     [\<lparr>lat = 0.000001, lng = 0\<rparr>, \<lparr>lat = 1, lng = 1\<rparr>] (Some (1 / 1000000)) \<and>
   \<not> areCoordinatesEqual [\<lparr>lat = 0, lng = 0\<rparr>, \<lparr>lat = 1, lng = 1\<rparr>]
     [\<lparr>lat = 0, lng = 0\<rparr>] (Some (1 / 1000000))"
  using areCoordinatesEqual_spec
      [of "[\<lparr>lat = 0, lng = 0\<rparr>, \<lparr>lat = 1, lng = 1\<rparr>]"
          "[\<lparr>lat = 0.0000005, lng = 0\<rparr>, \<lparr>lat = 1, lng = 0.9999995\<rparr>]" "1 / 1000000"]
    areCoordinatesEqual_spec
      [of "[\<lparr>lat = 0, lng = 0\<rparr>, \<lparr>lat = 1, lng = 1\<rparr>]"
          "[\<lparr>lat = 0.000001, lng = 0\<rparr>, \<lparr>lat = 1, lng = 1\<rparr>]" "1 / 1000000"]
    areCoordinatesEqual_spec
      [of "[\<lparr>lat = 0, lng = 0\<rparr>, \<lparr>lat = 1, lng = 1\<rparr>]"
          "[\<lparr>lat = 0, lng = 0\<rparr>]" "1 / 1000000"]
  by (simp add: All_less_Suc)

text \<open>
  Claim C7, as stated: for every ring, the ring and its reverse (or a rotation of it)
  are not equal for \<^verbatim>\<open>areCoordinatesEqual\<close>. A triangle whose corners are 0.0000005
  degrees apart is a ring of three different points that the detector, with the
  tolerance 0.000001, finds equal to its reverse and to its rotation by one point.
\<close>

theorem reverse_and_rotation_counterexample:
  "areCoordinatesEqual
     [\<lparr>lat = 0, lng = 0\<rparr>, \<lparr>lat = 0, lng = 0.0000005\<rparr>, \<lparr>lat = 0.0000005, lng = 0\<rparr>]
     (rev [\<lparr>lat = 0, lng = 0\<rparr>, \<lparr>lat = 0, lng = 0.0000005\<rparr>, \<lparr>lat = 0.0000005, lng = 0\<rparr>])
     (Some 0.000001) \<and>
   areCoordinatesEqual
     [\<lparr>lat = 0, lng = 0\<rparr>, \<lparr>lat = 0, lng = 0.0000005\<rparr>, \<lparr>lat = 0.0000005, lng = 0\<rparr>]
     (rotate 1 [\<lparr>lat = 0, lng = 0\<rparr>, \<lparr>lat = 0, lng = 0.0000005\<rparr>, \<lparr>lat = 0.0000005, lng = 0\<rparr>])
     (Some 0.000001)"
  by (simp add: areCoordinatesEqual_def)

text \<open>
  Claim C7, amended. The detector compares position by position and does not normalise
  the order: a ring is equal to its reverse exactly when every point agrees within the
  tolerance with the point at the mirrored index, and equal to its rotation by \<open>k\<close>
  exactly when every point agrees within the tolerance with the point \<open>k\<close> places
  further on. In particular \<^verbatim>\<open>equal([(0,0),(1,1)], [(0,0),(1,1)], 1e-6)\<close> is true and
  \<^verbatim>\<open>equal([(0,0),(1,1)], [(1,1),(0,0)], 1e-6)\<close> is false.
\<close>

theorem areCoordinatesEqual_positional:
  "areCoordinatesEqual a (rev a) (Some t) =
     (\<forall>i<length a. close_to t (a ! i) (a ! (length a - 1 - i))) \<and>
   areCoordinatesEqual a (rotate k a) (Some t) =
     (\<forall>i<length a. close_to t (a ! i) (a ! ((i + k) mod length a))) \<and>
   areCoordinatesEqual [\<lparr>lat = 0, lng = 0\<rparr>, \<lparr>lat = 1, lng = 1\<rparr>]
     [\<lparr>lat = 0, lng = 0\<rparr>, \<lparr>lat = 1, lng = 1\<rparr>] (Some (1 / 1000000)) = True \<and>
   areCoordinatesEqual [\<lparr>lat = 0, lng = 0\<rparr>, \<lparr>lat = 1, lng = 1\<rparr>]
     [\<lparr>lat = 1, lng = 1\<rparr>, \<lparr>lat = 0, lng = 0\<rparr>] (Some (1 / 1000000)) = False"
proof (intro conjI)
  show "areCoordinatesEqual a (rev a) (Some t) =
     (\<forall>i<length a. close_to t (a ! i) (a ! (length a - 1 - i)))"
    by (simp add: areCoordinatesEqual_iff close_to_def rev_nth)
  show "areCoordinatesEqual a (rotate k a) (Some t) =
     (\<forall>i<length a. close_to t (a ! i) (a ! ((i + k) mod length a)))"
    by (simp add: areCoordinatesEqual_iff close_to_def nth_rotate add.commute)
qed (simp_all add: areCoordinatesEqual_iff All_less_Suc Ex_less_Suc)

text \<open>A triangle with corners one degree apart differs from its reverse and its rotation.\<close>

theorem areCoordinatesEqual_positional_witness:
  "\<not> areCoordinatesEqual [\<lparr>lat = 0, lng = 0\<rparr>, \<lparr>lat = 0, lng = 1\<rparr>, \<lparr>lat = 1, lng = 1\<rparr>]
       (rev [\<lparr>lat = 0, lng = 0\<rparr>, \<lparr>lat = 0, lng = 1\<rparr>, \<lparr>lat = 1, lng = 1\<rparr>]) (Some (1 / 1000000)) \<and>
   \<not> areCoordinatesEqual [\<lparr>lat = 0, lng = 0\<rparr>, \<lparr>lat = 0, lng = 1\<rparr>, \<lparr>lat = 1, lng = 1\<rparr>]
       (rotate 1 [\<lparr>lat = 0, lng = 0\<rparr>, \<lparr>lat = 0, lng = 1\<rparr>, \<lparr>lat = 1, lng = 1\<rparr>])
       (Some (1 / 1000000))"
  using areCoordinatesEqual_positional
      [of "[\<lparr>lat = 0, lng = 0\<rparr>, \<lparr>lat = 0, lng = 1\<rparr>, \<lparr>lat = 1, lng = 1\<rparr>]" "1 / 1000000" 1]
  by (simp add: All_less_Suc close_to_def)

section \<open>Properties of the unit formatter\<close>

lemma digits_lt10: "n < 10 \<Longrightarrow> digits n = [digit_char n]"
  by (simp add: digits.simps)

lemma digits_ge10: "10 \<le> n \<Longrightarrow> digits n = digits (n div 10) @ [digit_char (n mod 10)]"
  by (subst digits.simps) simp

lemma length_frac_digits [simp]: "length (frac_digits r f) = f"
  by (induction f arbitrary: r) simp_all

lemma digits_nonempty [simp]: "digits n \<noteq> []"
  by (subst digits.simps) simp

lemma frac_digits_0: "frac_digits 0 f = replicate f (CHR ''0'')"
  by (induction f) (simp_all add: digit_char_def replicate_append_same)

text \<open>The last \<open>f\<close> digits of a number of more than \<open>f\<close> digits are its fractional part.\<close>

lemma digits_split:
  "10 ^ f \<le> n \<Longrightarrow> digits n = digits (n div 10 ^ f) @ frac_digits (n mod 10 ^ f) f"
proof (induction f arbitrary: n)
  case 0
  show ?case by simp
next
  case (Suc f)
  have pos: "(0::nat) < 10 ^ f" by simp
  from Suc.prems have "10 * 10 ^ f \<le> n" by simp
  then have ge: "10 ^ f \<le> n div 10" by (simp add: less_eq_div_iff_mult_less_eq mult.commute)
  from pos \<open>10 * 10 ^ f \<le> n\<close> have n10: "10 \<le> n" by linarith
  have a: "n div 10 div 10 ^ f = n div (10 * 10 ^ f)"
    by (simp add: div_mult2_eq)
  have b: "n mod (10 * 10 ^ f) div 10 = n div 10 mod 10 ^ f"
    by (simp add: mod_mult2_eq)
  have c: "n mod (10 * 10 ^ f) mod 10 = n mod 10"
    by (simp add: mod_mod_cancel)
  show ?case
    using Suc.IH [OF ge] by (simp add: digits_ge10 [OF n10] a b c)
qed

text \<open>A number of at most \<open>f\<close> digits, padded with zeros, is its own fractional part.\<close>

lemma digits_small:
  "0 < f \<Longrightarrow> n < 10 ^ f \<Longrightarrow>
   length (digits n) \<le> f \<and>
   replicate (f - length (digits n)) (CHR ''0'') @ digits n = frac_digits n f"
proof (induction f arbitrary: n)
  case 0
  then show ?case by simp
next
  case (Suc f)
  show ?case
  proof (cases "n < 10")
    case True
    then show ?thesis
      by (simp add: digits_lt10 frac_digits_0)
  next
    case False
    then have n10: "10 \<le> n" by simp
    have f0: "0 < f"
    proof (rule ccontr)
      assume "\<not> 0 < f"
      then have "f = 0" by simp
      with Suc.prems n10 show False by simp
    qed
    from Suc.prems have "n div 10 < 10 ^ f"
      by (simp add: div_less_iff_less_mult mult.commute)
    from Suc.IH [OF f0 this] show ?thesis
      by (simp add: digits_ge10 [OF n10] Suc_diff_le)
  qed
qed

lemma fixed_digits:
  "f \<noteq> 0 \<Longrightarrow>
   (let m = digits n; k = length m;
        m = (if k \<le> f then replicate (f + 1 - k) (CHR ''0'') @ m else m);
        k = (if k \<le> f then f + 1 else k)
    in take (k - f) m @ ''.'' @ drop (k - f) m) = decimal n f"
proof (cases "10 ^ f \<le> n")
  case True
  assume f: "f \<noteq> 0"
  have sp: "digits n = digits (n div 10 ^ f) @ frac_digits (n mod 10 ^ f) f"
    by (rule digits_split [OF True])
  have len: "length (digits n) = length (digits (n div 10 ^ f)) + f"
    by (subst sp) simp
  have "0 < length (digits (n div 10 ^ f))" by simp
  with len have gt: "\<not> length (digits n) \<le> f" by linarith
  have "take (length (digits n) - f) (digits n) = digits (n div 10 ^ f)"
    by (subst sp, subst sp) simp
  moreover have "drop (length (digits n) - f) (digits n) = frac_digits (n mod 10 ^ f) f"
    by (subst sp, subst sp) simp
  ultimately show ?thesis
    using f gt by (simp add: Let_def decimal_def)
next
  case False
  assume f: "f \<noteq> 0"
  from False have lt: "n < 10 ^ f" by simp
  from f have "0 < f" by simp
  from digits_small [OF this lt]
  have le: "length (digits n) \<le> f"
    and pad: "replicate (f - length (digits n)) (CHR ''0'') @ digits n = frac_digits n f"
    by simp_all
  have "replicate (f + 1 - length (digits n)) (CHR ''0'') @ digits n
        = CHR ''0'' # frac_digits n f"
    using le pad by (simp add: Suc_diff_le)
  then show ?thesis
    using f le lt by (simp add: Let_def decimal_def digits_lt10 digit_char_def)
qed

text \<open>
  Below \<open>10^21\<close> the built-in writes the nearest multiple of \<open>10^-f\<close> (a tie goes up)
  with exactly \<open>f\<close> decimal places; from \<open>10^21\<close> on it delegates.
\<close>

lemma toFixed_finite_decimal:
  assumes "0 \<le> x" "x < 10 ^ 21"
  shows "toFixed_finite ts x f = decimal (nat \<lfloor>x * 10 ^ f + 1 / 2\<rfloor>) f"
proof (cases "f = 0")
  case True
  with assms show ?thesis by (simp add: toFixed_finite_def decimal_def)
next
  case False
  from fixed_digits [OF False, of "nat \<lfloor>x * 10 ^ f + 1 / 2\<rfloor>"] assms False
  show ?thesis
    by (simp add: toFixed_finite_def Let_def)
qed

lemma toFixed_finite_negative:
  assumes "x < 0" "- (10 ^ 21) < x"
  shows "toFixed_finite ts x f = ''-'' @ decimal (nat \<lfloor>- x * 10 ^ f + 1 / 2\<rfloor>) f"
proof (cases "f = 0")
  case True
  with assms show ?thesis by (simp add: toFixed_finite_def decimal_def)
next
  case False
  from fixed_digits [OF False, of "nat \<lfloor>- x * 10 ^ f + 1 / 2\<rfloor>"] assms False
  show ?thesis
    by (simp add: toFixed_finite_def Let_def)
qed

lemma toFixed_finite_large: "10 ^ 21 \<le> x \<Longrightarrow> toFixed_finite ts x f = ts x"
  by (simp add: toFixed_finite_def)

lemma toFixed_finite_large_negative:
  "x \<le> - (10 ^ 21) \<Longrightarrow> toFixed_finite ts x f = ''-'' @ ts (- x)"
  by (simp add: toFixed_finite_def)

text \<open>
  Claim C4, amended. For a finite value: below 10000 the text is the value rounded to 2
  decimal places (a minus sign first for a negative value above \<open>- 10^21\<close>) and the
  suffix for square metres; from 10000 and below 1000000 it is the double quotient by
  10000 rounded to 4 decimal places and the suffix \<^verbatim>\<open>hectares\<close>; from 1000000 on it is
  the double quotient by 1000000 rounded to 2 decimal places and the suffix for square
  kilometres, as long as that quotient is below \<open>10^21\<close>. A quotient from \<open>10^21\<close>
  on, and a value down from \<open>- 10^21\<close>, is printed by \<^verbatim>\<open>Number::toString\<close>; NaN and
  the infinities are printed by name. Exactly 10000 is rendered in hectares, exactly
  1000000 in square kilometres, and 5000 gives \<^verbatim>\<open>5000.00\<close> with the suffix for square
  metres.
\<close>

theorem formatArea_text:
  "(0 \<le> r \<and> r < 10000 \<longrightarrow>
      formatArea ts (Finite r) =
        decimal (nat \<lfloor>r * 10 ^ 2 + 1 / 2\<rfloor>) 2 @ '' m'' @ [superscript_two]) \<and>
   (- (10 ^ 21) < r \<and> r < 0 \<longrightarrow>
      formatArea ts (Finite r) =
        ''-'' @ decimal (nat \<lfloor>- r * 10 ^ 2 + 1 / 2\<rfloor>) 2 @ '' m'' @ [superscript_two]) \<and>
   (10000 \<le> r \<and> r < 1000000 \<longrightarrow>
      (\<exists>q. sqMetersToHectares (Finite r) = Finite q \<and>
           formatArea ts (Finite r) =
             decimal (nat \<lfloor>q * 10 ^ 4 + 1 / 2\<rfloor>) 4 @ '' hectares'')) \<and>
   (1000000 \<le> r \<and> sqMetersToSqKm (Finite r) = Finite q \<and> q < 10 ^ 21 \<longrightarrow>
      formatArea ts (Finite r) =
        decimal (nat \<lfloor>q * 10 ^ 2 + 1 / 2\<rfloor>) 2 @ '' km'' @ [superscript_two]) \<and>
   (1000000 \<le> r \<and> sqMetersToSqKm (Finite r) = Finite q \<and> 10 ^ 21 \<le> q \<longrightarrow>
      formatArea ts (Finite r) = ts q @ '' km'' @ [superscript_two]) \<and>
   (r \<le> - (10 ^ 21) \<longrightarrow>
      formatArea ts (Finite r) = ''-'' @ ts (- r) @ '' m'' @ [superscript_two]) \<and>
   formatArea ts NaN = ''NaN km'' @ [superscript_two] \<and>
   formatArea ts PosInf = ''Infinity km'' @ [superscript_two] \<and>
   formatArea ts NegInf = ''-Infinity m'' @ [superscript_two] \<and>
   formatArea ts (Finite 5000) = ''5000.00 m'' @ [superscript_two] \<and>
   formatArea ts (Finite 10000) = ''1.0000 hectares'' \<and>
   formatArea ts (Finite 1000000) = ''1.00 km'' @ [superscript_two]"
proof (intro conjI impI)
  assume a: "0 \<le> r \<and> r < 10000"
  then have "r < 10 ^ 21" by simp
  with a show "formatArea ts (Finite r) =
        decimal (nat \<lfloor>r * 10 ^ 2 + 1 / 2\<rfloor>) 2 @ '' m'' @ [superscript_two]"
    by (simp add: formatArea_def toFixed_finite_decimal)
next
  assume a: "- (10 ^ 21) < r \<and> r < 0"
  then show "formatArea ts (Finite r) =
        ''-'' @ decimal (nat \<lfloor>- r * 10 ^ 2 + 1 / 2\<rfloor>) 2 @ '' m'' @ [superscript_two]"
    by (simp add: formatArea_def toFixed_finite_negative)
next
  assume a: "10000 \<le> r \<and> r < 1000000"
  then have "0 \<le> r / 10000" "r / 10000 \<le> 10 ^ 20" by simp_all
  from round_double_bounded [OF this]
  obtain q where q: "round_double (r / 10000) = Finite q" "0 \<le> q" "q < 10 ^ 21" by blast
  with a have "formatArea ts (Finite r) =
      decimal (nat \<lfloor>q * 10 ^ 4 + 1 / 2\<rfloor>) 4 @ '' hectares''"
    by (simp add: formatArea_def sqMetersToHectares_def toFixed_finite_decimal)
  with q(1) show "\<exists>q. sqMetersToHectares (Finite r) = Finite q \<and>
           formatArea ts (Finite r) =
             decimal (nat \<lfloor>q * 10 ^ 4 + 1 / 2\<rfloor>) 4 @ '' hectares''"
    by (simp add: sqMetersToHectares_def)
next
  assume a: "1000000 \<le> r \<and> sqMetersToSqKm (Finite r) = Finite q \<and> q < 10 ^ 21"
  then have "0 \<le> r / 1000000" and rd: "round_double (r / 1000000) = Finite q"
    by (simp_all add: sqMetersToSqKm_def)
  then have "0 \<le> q" by (rule round_double_nonneg)
  with a rd show "formatArea ts (Finite r) =
        decimal (nat \<lfloor>q * 10 ^ 2 + 1 / 2\<rfloor>) 2 @ '' km'' @ [superscript_two]"
    by (simp add: formatArea_def sqMetersToSqKm_def toFixed_finite_decimal)
next
  assume a: "1000000 \<le> r \<and> sqMetersToSqKm (Finite r) = Finite q \<and> 10 ^ 21 \<le> q"
  then show "formatArea ts (Finite r) = ts q @ '' km'' @ [superscript_two]"
    by (simp add: formatArea_def toFixed_finite_large)
next
  assume "r \<le> - (10 ^ 21)"
  then show "formatArea ts (Finite r) = ''-'' @ ts (- r) @ '' m'' @ [superscript_two]"
    by (simp add: formatArea_def toFixed_finite_large_negative)
next
  show "formatArea ts (Finite 5000) = ''5000.00 m'' @ [superscript_two]"
    by (simp add: formatArea_def toFixed_finite_def digits_ge10 digits_lt10 digit_char_def
        Let_def)
  show "formatArea ts (Finite 10000) = ''1.0000 hectares''"
    by (simp add: formatArea_def sqMetersToHectares_def double_eval toFixed_finite_def
        digits_ge10 digits_lt10 digit_char_def Let_def)
  show "formatArea ts (Finite 1000000) = ''1.00 km'' @ [superscript_two]"
    by (simp add: formatArea_def sqMetersToSqKm_def double_eval toFixed_finite_def
        digits_ge10 digits_lt10 digit_char_def Let_def)
qed (simp_all add: formatArea_def sqMetersToSqKm_def)


lemma frac_digits_2: "frac_digits r 2 = [digit_char (r div 10 mod 10), digit_char (r mod 10)]"
  by (simp add: numeral_2_eq_2)

lemma frac_digits_4:
  "frac_digits r 4 =
     [digit_char (r div 10 div 10 div 10 mod 10), digit_char (r div 10 div 10 mod 10),
      digit_char (r div 10 mod 10), digit_char (r mod 10)]"
proof -
  have "(4::nat) = Suc (Suc (Suc (Suc 0)))" by simp
  then show ?thesis by (simp only: frac_digits.simps append.simps)
qed

text \<open>
  1234.5625 and -0.5 square metres; 999999.5 square metres, whose double quotient lies
  just below 99.99995 and is printed as 99.9999; 1005000 square metres, whose double
  quotient lies just below 1.005 and is printed as 1.00.
\<close>

theorem formatArea_text_witness:
  "(0::real) \<le> 1234.5625 \<and> (1234.5625::real) < 10000 \<and>
   formatArea (\<lambda>x. []) (Finite 1234.5625) = ''1234.56 m'' @ [superscript_two] \<and>
   - (10 ^ 21) < (- 0.5::real) \<and> (- 0.5::real) < 0 \<and>
   formatArea (\<lambda>x. []) (Finite (- 0.5)) = ''-0.50 m'' @ [superscript_two] \<and>
   (10000::real) \<le> 999999.5 \<and> (999999.5::real) < 1000000 \<and>
   sqMetersToHectares (Finite 999999.5) = Finite (7036870899329191 / 70368744177664) \<and>
   formatArea (\<lambda>x. []) (Finite 999999.5) = ''99.9999 hectares'' \<and>
   (1000000::real) \<le> 1005000 \<and>
   sqMetersToSqKm (Finite 1005000) = Finite (1131529406376837 / 1125899906842624) \<and>
   (1131529406376837 / 1125899906842624 :: real) < 10 ^ 21 \<and>
   formatArea (\<lambda>x. []) (Finite 1005000) = ''1.00 km'' @ [superscript_two]"
proof -
  have qh: "sqMetersToHectares (Finite 999999.5) = Finite (7036870899329191 / 70368744177664)"
    by (simp add: sqMetersToHectares_def double_eval)
  have qk: "sqMetersToSqKm (Finite 1005000) = Finite (1131529406376837 / 1125899906842624)"
    by (simp add: sqMetersToSqKm_def double_eval)
  have m: "(0::real) \<le> 1234.5625 \<and> (1234.5625::real) < 10000 \<longrightarrow>
      formatArea (\<lambda>x. []) (Finite 1234.5625) =
        decimal (nat \<lfloor>(1234.5625::real) * 10 ^ 2 + 1 / 2\<rfloor>) 2 @ '' m'' @ [superscript_two]"
    using formatArea_text [of "1234.5625" "\<lambda>x. []"] by blast
  have n: "- (10 ^ 21) < (- 0.5::real) \<and> (- 0.5::real) < 0 \<longrightarrow>
      formatArea (\<lambda>x. []) (Finite (- 0.5)) =
        ''-'' @ decimal (nat \<lfloor>- (- 0.5::real) * 10 ^ 2 + 1 / 2\<rfloor>) 2 @ '' m'' @ [superscript_two]"
    using formatArea_text [of "- 0.5" "\<lambda>x. []"] by blast
  have h: "(10000::real) \<le> 999999.5 \<and> (999999.5::real) < 1000000 \<longrightarrow>
      (\<exists>q. sqMetersToHectares (Finite 999999.5) = Finite q \<and>
           formatArea (\<lambda>x. []) (Finite 999999.5) =
             decimal (nat \<lfloor>q * 10 ^ 4 + 1 / 2\<rfloor>) 4 @ '' hectares'')"
    using formatArea_text [of "999999.5" "\<lambda>x. []"] by blast
  have k: "(1000000::real) \<le> 1005000 \<and>
      sqMetersToSqKm (Finite 1005000) = Finite (1131529406376837 / 1125899906842624) \<and>
      (1131529406376837 / 1125899906842624 :: real) < 10 ^ 21 \<longrightarrow>
      formatArea (\<lambda>x. []) (Finite 1005000) =
        decimal (nat \<lfloor>(1131529406376837 / 1125899906842624 :: real) * 10 ^ 2 + 1 / 2\<rfloor>) 2
          @ '' km'' @ [superscript_two]"
    using formatArea_text [of 1005000 "\<lambda>x. []" "1131529406376837 / 1125899906842624"]
    by blast
  have dm: "decimal 123456 2 = ''1234.56''"
    by (simp add: decimal_def digits_ge10 digits_lt10 digit_char_def frac_digits_2)
  have dn: "decimal 50 2 = ''0.50''"
    by (simp add: decimal_def digits_ge10 digits_lt10 digit_char_def frac_digits_2)
  have dh: "decimal 999999 4 = ''99.9999''"
    by (simp add: decimal_def digits_ge10 digits_lt10 digit_char_def frac_digits_4)
  have dk: "decimal 100 2 = ''1.00''"
    by (simp add: decimal_def digits_ge10 digits_lt10 digit_char_def frac_digits_2)
  from m have "formatArea (\<lambda>x. []) (Finite 1234.5625) = ''1234.56 m'' @ [superscript_two]"
    by (simp add: dm)
  moreover from n have "formatArea (\<lambda>x. []) (Finite (- 0.5)) = ''-0.50 m'' @ [superscript_two]"
    by (simp add: dn)
  moreover have "formatArea (\<lambda>x. []) (Finite 999999.5) = ''99.9999 hectares''"
  proof -
    from h obtain q where q: "sqMetersToHectares (Finite 999999.5) = Finite q"
      and t: "formatArea (\<lambda>x. []) (Finite 999999.5) =
                decimal (nat \<lfloor>q * 10 ^ 4 + 1 / 2\<rfloor>) 4 @ '' hectares''"
      by auto
    from q qh have qv: "q = 7036870899329191 / 70368744177664" by simp
    from t [unfolded qv] show ?thesis by (simp add: dh)
  qed
  moreover from k qk have "formatArea (\<lambda>x. []) (Finite 1005000) = ''1.00 km'' @ [superscript_two]"
    by (simp add: dk)
  ultimately show ?thesis using qh qk by simp
qed

text \<open>
  Claim C4, as stated: every value is rendered with 2 or 4 decimal places. NaN is
  printed as \<^verbatim>\<open>NaN\<close> with the suffix for square kilometres, and so is the double nearest
  to \<open>10^27\<close>, whose quotient is the double \<open>10^21\<close>, as \<^verbatim>\<open>1e+21\<close>, the text that
  \<^verbatim>\<open>Number::toString\<close> gives for it.
\<close>

theorem formatArea_every_value_counterexample:
  "formatArea (\<lambda>x. if x = 10 ^ 21 then ''1e+21'' else []) NaN = ''NaN km'' @ [superscript_two] \<and>
   formatArea (\<lambda>x. if x = 10 ^ 21 then ''1e+21'' else [])
     (Finite 1000000000000000013287555072) = ''1e+21 km'' @ [superscript_two]"
  by (simp add: formatArea_def sqMetersToSqKm_def double_eval toFixed_finite_def)

section \<open>Properties of the feature registry\<close>

lemma plain_point [simp]: "\<lparr>lat = lat ll, lng = lng ll\<rparr> = (ll :: LatLng)"
  by (cases ll) simp

lemma plain_coordinates_id [simp]: "plain_coordinates latlngs = latlngs"
  by (simp add: plain_coordinates_def)

lemma isDuplicateFeature_iff:
  "isDuplicateFeature c fs =
     (\<exists>f \<in> set fs. areCoordinatesEqual (coordinates f) c None)"
  by (simp add: isDuplicateFeature_def list_ex_iff)

text \<open>A duplicate: a click handler is put on the layer, the layer leaves the map.\<close>

lemma handleCreate_duplicate:
  assumes "objects l \<noteq> L_Layer"
    and "isDuplicateFeature (layer_coordinates (objects l)) (drawnFeatures st)"
  shows "handleCreate objects st (Some l) new_id =
           st\<lparr>clickHandlers := clickHandlers st @ [(l, new_id)],
              mapLayers := mapLayers st - {l}\<rparr>"
  using assms
  by (cases "objects l") (simp_all add: handleCreate_def Let_def map_removeLayer_def)

lemma handleCreate_fresh:
  assumes "objects l \<noteq> L_Layer"
    and "\<not> isDuplicateFeature (layer_coordinates (objects l)) (drawnFeatures st)"
  shows "\<exists>f. drawnFeatures (handleCreate objects st (Some l) new_id) = drawnFeatures st @ [f] \<and>
             coordinates f = layer_coordinates (objects l) \<and> layer f = l \<and>
             feature_id f = new_id \<and>
             layerType f = (if drawMode st = Some record_mode then record_layer else workArea_layer)"
  using assms
  by (cases "objects l")
     (simp_all add: handleCreate_def Let_def register_feature_def targetLayer_addLayer_def
        onPolygonChange_def)

lemma handleCreate_first:
  assumes "drawnFeatures st = []" and "objects l \<noteq> L_Layer"
  shows "\<exists>f. drawnFeatures (handleCreate objects st (Some l) new_id) = [f] \<and>
             coordinates f = layer_coordinates (objects l)"
proof -
  have "\<not> isDuplicateFeature (layer_coordinates (objects l)) (drawnFeatures st)"
    using assms(1) by (simp add: isDuplicateFeature_def)
  from handleCreate_fresh [of objects l st new_id, OF assms(2) this] assms(1)
  show ?thesis by auto
qed

text \<open>
  Claim C3. When the coordinate sequence of a newly drawn polygon, rectangle, polyline
  or marker compares equal, under the tolerance 1e-6, to that of a feature of the
  registry, \<^verbatim>\<open>handleCreate\<close> leaves the registry, the selection and both layer
  groups as they are and removes the new layer from the map. In particular, after a polygon with the ring \<open>R\<close> has been registered in
  an empty registry, creating a second feature whose coordinates compare equal to \<open>R\<close>
  is rejected: the registry keeps its single entry.
\<close>

theorem handleCreate_rejects_duplicate:
  "(objects l \<noteq> L_Layer \<and>
    (\<exists>f \<in> set (drawnFeatures st).
        areCoordinatesEqual (coordinates f) (layer_coordinates (objects l)) (Some (1 / 1000000)))
    \<longrightarrow>
      drawnFeatures (handleCreate objects st (Some l) new_id) = drawnFeatures st \<and>
      selectedFeatureId (handleCreate objects st (Some l) new_id) = selectedFeatureId st \<and>
      workAreaLayer (handleCreate objects st (Some l) new_id) = workAreaLayer st \<and>
      recordLayer (handleCreate objects st (Some l) new_id) = recordLayer st \<and>
      l \<notin> mapLayers (handleCreate objects st (Some l) new_id)) \<and>
   (drawnFeatures st = [] \<and> objects l1 = L_Polygon R holes \<and> objects l2 \<noteq> L_Layer \<and>
    areCoordinatesEqual R (layer_coordinates (objects l2)) (Some (1 / 1000000))
    \<longrightarrow>
      (let st1 = handleCreate objects st (Some l1) id1;
           st2 = handleCreate objects st1 (Some l2) id2
       in length (drawnFeatures st1) = 1 \<and>
          drawnFeatures st2 = drawnFeatures st1 \<and>
          length (drawnFeatures st2) = 1 \<and>
          l2 \<notin> mapLayers st2))"
proof (intro conjI impI)
  assume a: "objects l \<noteq> L_Layer \<and>
    (\<exists>f \<in> set (drawnFeatures st).
        areCoordinatesEqual (coordinates f) (layer_coordinates (objects l)) (Some (1 / 1000000)))"
  then have dup: "isDuplicateFeature (layer_coordinates (objects l)) (drawnFeatures st)"
    by (simp add: isDuplicateFeature_iff areCoordinatesEqual_default)
  from a have nl: "objects l \<noteq> L_Layer" by simp
  note r = handleCreate_duplicate [of objects l st new_id, OF nl dup]
  show "drawnFeatures (handleCreate objects st (Some l) new_id) = drawnFeatures st"
    by (simp add: r)
  show "selectedFeatureId (handleCreate objects st (Some l) new_id) = selectedFeatureId st"
    by (simp add: r)
  show "workAreaLayer (handleCreate objects st (Some l) new_id) = workAreaLayer st"
    by (simp add: r)
  show "recordLayer (handleCreate objects st (Some l) new_id) = recordLayer st"
    by (simp add: r)
  show "l \<notin> mapLayers (handleCreate objects st (Some l) new_id)"
    by (simp add: r)
next
  assume b: "drawnFeatures st = [] \<and> objects l1 = L_Polygon R holes \<and> objects l2 \<noteq> L_Layer \<and>
    areCoordinatesEqual R (layer_coordinates (objects l2)) (Some (1 / 1000000))"
  define st1 where "st1 = handleCreate objects st (Some l1) id1"
  from b have "objects l1 \<noteq> L_Layer" by simp
  from handleCreate_first [of st objects l1 id1] this b
  obtain f where f: "drawnFeatures st1 = [f]" "coordinates f = R"
    by (auto simp: st1_def)
  have dup: "isDuplicateFeature (layer_coordinates (objects l2)) (drawnFeatures st1)"
    using b f by (simp add: isDuplicateFeature_iff areCoordinatesEqual_default)
  from b have nl: "objects l2 \<noteq> L_Layer" by simp
  have "handleCreate objects st1 (Some l2) id2 =
      st1\<lparr>clickHandlers := clickHandlers st1 @ [(l2, id2)], mapLayers := mapLayers st1 - {l2}\<rparr>"
    by (rule handleCreate_duplicate [of objects l2 st1 id2, OF nl dup])
  then show "let st1 = handleCreate objects st (Some l1) id1;
           st2 = handleCreate objects st1 (Some l2) id2
       in length (drawnFeatures st1) = 1 \<and>
          drawnFeatures st2 = drawnFeatures st1 \<and>
          length (drawnFeatures st2) = 1 \<and>
          l2 \<notin> mapLayers st2"
    using f by (simp add: st1_def [symmetric] Let_def)
qed

text \<open>The same triangle drawn twice, as the layers 1 and 2, on a map that shows both.\<close>

theorem handleCreate_rejects_duplicate_witness:
  "(let objects = (\<lambda>r. L_Polygon [\<lparr>lat = 0, lng = 0\<rparr>, \<lparr>lat = 0, lng = 1\<rparr>, \<lparr>lat = 1, lng = 1\<rparr>] []);
        st = initial_state\<lparr>mapLayers := {1, 2}\<rparr>;
        st1 = handleCreate objects st (Some 1) ''feature-1'';
        st2 = handleCreate objects st1 (Some 2) ''feature-2''
    in length (drawnFeatures st1) = 1 \<and>
       drawnFeatures st2 = drawnFeatures st1 \<and>
       length (drawnFeatures st2) = 1 \<and>
       2 \<notin> mapLayers st2)"
  using handleCreate_rejects_duplicate
    [where objects = "\<lambda>r. L_Polygon [\<lparr>lat = 0, lng = 0\<rparr>, \<lparr>lat = 0, lng = 1\<rparr>, \<lparr>lat = 1, lng = 1\<rparr>] []"
       and st = "initial_state\<lparr>mapLayers := {1, 2}\<rparr>"
       and ?l1.0 = 1 and ?l2.0 = 2 and ?id1.0 = "''feature-1''" and ?id2.0 = "''feature-2''"
       and R = "[\<lparr>lat = 0, lng = 0\<rparr>, \<lparr>lat = 0, lng = 1\<rparr>, \<lparr>lat = 1, lng = 1\<rparr>]"
       and holes = "[]"]
  by (simp add: initial_state_def areCoordinatesEqual_def)

text \<open>
  Claim C10. The duplicate check at creation does not look at layers: relabelling the
  layer of the registered features does not change its answer, and a new shape whose
  coordinates match those of any registered feature is rejected whatever the layer of
  that feature and whatever the draw mode, which decides the layer of the new one.
\<close>

theorem duplicate_check_ignores_layer:
  "isDuplicateFeature c (map (\<lambda>f. f\<lparr>layerType := relabel f\<rparr>) fs) = isDuplicateFeature c fs \<and>
   (objects l \<noteq> L_Layer \<and> f \<in> set (drawnFeatures st) \<and>
    areCoordinatesEqual (coordinates f) (layer_coordinates (objects l)) None
    \<longrightarrow>
      drawnFeatures (handleCreate objects (st\<lparr>drawMode := mode\<rparr>) (Some l) new_id)
        = drawnFeatures st \<and>
      l \<notin> mapLayers (handleCreate objects (st\<lparr>drawMode := mode\<rparr>) (Some l) new_id))"
proof (intro conjI impI)
  show "isDuplicateFeature c (map (\<lambda>f. f\<lparr>layerType := relabel f\<rparr>) fs) = isDuplicateFeature c fs"
    by (simp add: isDuplicateFeature_def list_ex_iff)
next
  assume a: "objects l \<noteq> L_Layer \<and> f \<in> set (drawnFeatures st) \<and>
    areCoordinatesEqual (coordinates f) (layer_coordinates (objects l)) None"
  then have dup: "isDuplicateFeature (layer_coordinates (objects l))
      (drawnFeatures (st\<lparr>drawMode := mode\<rparr>))"
    by (auto simp: isDuplicateFeature_iff)
  from a have nl: "objects l \<noteq> L_Layer" by simp
  note r = handleCreate_duplicate [of objects l "st\<lparr>drawMode := mode\<rparr>" new_id, OF nl dup]
  show "drawnFeatures (handleCreate objects (st\<lparr>drawMode := mode\<rparr>) (Some l) new_id)
        = drawnFeatures st"
    by (simp add: r)
  show "l \<notin> mapLayers (handleCreate objects (st\<lparr>drawMode := mode\<rparr>) (Some l) new_id)"
    by (simp add: r)
qed

text \<open>A polygon of the work-area layer blocks the same polygon drawn in record mode.\<close>

theorem duplicate_check_ignores_layer_witness:
  "(let ring = [\<lparr>lat = 0, lng = 0\<rparr>, \<lparr>lat = 0, lng = 1\<rparr>, \<lparr>lat = 1, lng = 1\<rparr>];
        existing = \<lparr>feature_id = ''feature-1'', feature_type = polygon,
                    area = Some (calculateArea ring),
                    coordinates = ring, layer = 1, layerType = workArea_layer\<rparr>;
        st = initial_state\<lparr>drawnFeatures := [existing], mapLayers := {1, 2}\<rparr>;
        st' = handleCreate (\<lambda>r. L_Polygon ring []) (st\<lparr>drawMode := Some record_mode\<rparr>)
                (Some 2) ''feature-2''
    in drawnFeatures st' = [existing] \<and> 2 \<notin> mapLayers st')"
  using duplicate_check_ignores_layer
    [where objects = "\<lambda>r. L_Polygon [\<lparr>lat = 0, lng = 0\<rparr>, \<lparr>lat = 0, lng = 1\<rparr>, \<lparr>lat = 1, lng = 1\<rparr>] []"
       and l = 2 and mode = "Some record_mode" and new_id = "''feature-2''"
       and f = "\<lparr>feature_id = ''feature-1'', feature_type = polygon,
                    area = Some (calculateArea
                      [\<lparr>lat = 0, lng = 0\<rparr>, \<lparr>lat = 0, lng = 1\<rparr>, \<lparr>lat = 1, lng = 1\<rparr>]),
                    coordinates = [\<lparr>lat = 0, lng = 0\<rparr>, \<lparr>lat = 0, lng = 1\<rparr>, \<lparr>lat = 1, lng = 1\<rparr>],
                    layer = 1, layerType = workArea_layer\<rparr>"
       and st = "initial_state\<lparr>drawnFeatures :=
                    [\<lparr>feature_id = ''feature-1'', feature_type = polygon,
                    area = Some (calculateArea
                      [\<lparr>lat = 0, lng = 0\<rparr>, \<lparr>lat = 0, lng = 1\<rparr>, \<lparr>lat = 1, lng = 1\<rparr>]),
                    coordinates = [\<lparr>lat = 0, lng = 0\<rparr>, \<lparr>lat = 0, lng = 1\<rparr>, \<lparr>lat = 1, lng = 1\<rparr>],
                    layer = 1, layerType = workArea_layer\<rparr>], mapLayers := {1, 2}\<rparr>"]
  by (simp add: initial_state_def areCoordinatesEqual_def)

lemma edit_feature_polygon:
  assumes "layer f = l" and "objects l = L_Polygon R2 holes \<or> objects l = L_Rectangle R2"
  shows "edit_feature objects l f = f\<lparr>area := Some (calculateArea R2), coordinates := R2\<rparr>"
  using assms by (auto simp: edit_feature_def Let_def)

lemma edit_feature_other: "layer f \<noteq> l \<Longrightarrow> edit_feature objects l f = f"
  by (simp add: edit_feature_def)

text \<open>
  Claim C8. After an edit event for the layer of a registered feature, the layer being a
  polygon or a rectangle with the ring \<open>R2\<close>, the entry has the area
  \<open>calculateArea R2\<close> and the coordinates \<open>R2\<close>, and keeps its identifier, kind, layer
  and owning layer; the entries of other layers are unchanged and the registry keeps its
  length. Nothing is asked of \<open>R2\<close>: the duplicate detector is not consulted.
\<close>

theorem handleEdit_polygon:
  assumes "i < length (drawnFeatures st)"
    and "layer (drawnFeatures st ! i) = l"
    and "objects l = L_Polygon R2 holes \<or> objects l = L_Rectangle R2"
  shows "(let f = drawnFeatures st ! i;
              fs' = drawnFeatures (handleEdit objects st (Some l));
              f' = fs' ! i
          in length fs' = length (drawnFeatures st) \<and>
             area f' = Some (calculateArea R2) \<and>
             coordinates f' = R2 \<and>
             feature_id f' = feature_id f \<and>
             feature_type f' = feature_type f \<and>
             layerType f' = layerType f \<and>
             layer f' = layer f \<and>
             (\<forall>j<length fs'. layer (drawnFeatures st ! j) \<noteq> l \<longrightarrow> fs' ! j = drawnFeatures st ! j))"
  using assms
  by (simp add: handleEdit_def Let_def edit_feature_polygon [of _ l objects R2 holes]
      edit_feature_other)

text \<open>
  The second of two registered polygons is edited onto the ring of the first: the edit
  is stored, and the registry then holds two entries that the detector finds equal.
\<close>

theorem handleEdit_polygon_witness:
  "(let r1 = [\<lparr>lat = 0, lng = 0\<rparr>, \<lparr>lat = 0, lng = 1\<rparr>, \<lparr>lat = 1, lng = 1\<rparr>];
        r2 = [\<lparr>lat = 5, lng = 5\<rparr>, \<lparr>lat = 5, lng = 6\<rparr>, \<lparr>lat = 6, lng = 6\<rparr>];
        f1 = \<lparr>feature_id = ''feature-1'', feature_type = polygon, area = Some (calculateArea r1),
               coordinates = r1, layer = 1, layerType = workArea_layer\<rparr>;
        f2 = \<lparr>feature_id = ''feature-2'', feature_type = polygon, area = Some (calculateArea r2),
               coordinates = r2, layer = 2, layerType = record_layer\<rparr>;
        st = initial_state\<lparr>drawnFeatures := [f1, f2]\<rparr>;
        st' = handleEdit (\<lambda>r. L_Polygon r1 []) st (Some 2)
    in drawnFeatures st' = [f1, f2\<lparr>area := Some (calculateArea r1), coordinates := r1\<rparr>] \<and>
       isDuplicateFeature (coordinates (drawnFeatures st' ! 1)) [drawnFeatures st' ! 0])"
  using handleEdit_polygon
    [where i = 1 and l = 2 and holes = "[]"
       and ?R2.0 = "[\<lparr>lat = 0, lng = 0\<rparr>, \<lparr>lat = 0, lng = 1\<rparr>, \<lparr>lat = 1, lng = 1\<rparr>]"
       and objects = "\<lambda>r. L_Polygon [\<lparr>lat = 0, lng = 0\<rparr>, \<lparr>lat = 0, lng = 1\<rparr>, \<lparr>lat = 1, lng = 1\<rparr>] []"
       and st = "initial_state\<lparr>drawnFeatures :=
          [\<lparr>feature_id = ''feature-1'', feature_type = polygon,
             area = Some (calculateArea [\<lparr>lat = 0, lng = 0\<rparr>, \<lparr>lat = 0, lng = 1\<rparr>, \<lparr>lat = 1, lng = 1\<rparr>]),
             coordinates = [\<lparr>lat = 0, lng = 0\<rparr>, \<lparr>lat = 0, lng = 1\<rparr>, \<lparr>lat = 1, lng = 1\<rparr>],
             layer = 1, layerType = workArea_layer\<rparr>,
           \<lparr>feature_id = ''feature-2'', feature_type = polygon,
             area = Some (calculateArea [\<lparr>lat = 5, lng = 5\<rparr>, \<lparr>lat = 5, lng = 6\<rparr>, \<lparr>lat = 6, lng = 6\<rparr>]),
             coordinates = [\<lparr>lat = 5, lng = 5\<rparr>, \<lparr>lat = 5, lng = 6\<rparr>, \<lparr>lat = 6, lng = 6\<rparr>],
             layer = 2, layerType = record_layer\<rparr>]\<rparr>"]
  by (simp add: initial_state_def handleEdit_def edit_feature_def isDuplicateFeature_def
      areCoordinatesEqual_def Let_def)

section \<open>Properties of the GeoJSON of one feature\<close>

text \<open>
  Markers of the registry keep a marker layer and one coordinate, through creations and
  edits, as long as no layer object changes its class.
\<close>

lemma markers_ok_initial: "markers_ok objects initial_state"
  by (simp add: markers_ok_def initial_state_def)

lemma markers_ok_handleCreate:
  "markers_ok objects st \<Longrightarrow> markers_ok objects (handleCreate objects st e new_id)"
proof (cases e)
  case None
  assume "markers_ok objects st"
  with None show ?thesis by (simp add: handleCreate_def)
next
  case (Some l)
  assume ok: "markers_ok objects st"
  show ?thesis
  proof (cases "objects l")
    case L_Layer
    with ok Some show ?thesis
      by (simp add: handleCreate_def markers_ok_def)
  next
    case (L_Marker p)
    with ok Some show ?thesis
      by (simp add: handleCreate_def markers_ok_def Let_def map_removeLayer_def
          register_feature_def targetLayer_addLayer_def)
  next
    case (L_Polyline ps)
    with ok Some show ?thesis
      by (simp add: handleCreate_def markers_ok_def Let_def map_removeLayer_def
          register_feature_def targetLayer_addLayer_def)
  next
    case (L_Rectangle ps)
    with ok Some show ?thesis
      by (simp add: handleCreate_def markers_ok_def Let_def map_removeLayer_def
          register_feature_def targetLayer_addLayer_def onPolygonChange_def)
  next
    case (L_Polygon ps hs)
    with ok Some show ?thesis
      by (simp add: handleCreate_def markers_ok_def Let_def map_removeLayer_def
          register_feature_def targetLayer_addLayer_def onPolygonChange_def)
  qed
qed

lemma markers_ok_handleEdit:
  "markers_ok objects st \<Longrightarrow> markers_ok objects (handleEdit objects st e)"
proof (cases e)
  case None
  assume "markers_ok objects st"
  with None show ?thesis by (simp add: handleEdit_def)
next
  case (Some l)
  assume ok: "markers_ok objects st"
  have "feature_type (edit_feature objects l f) \<noteq> marker \<or>
        (instanceof_Marker (objects (layer (edit_feature objects l f))) \<and>
         coordinates (edit_feature objects l f) \<noteq> [])"
    if "feature_type f \<noteq> marker \<or> (instanceof_Marker (objects (layer f)) \<and> coordinates f \<noteq> [])"
    for f
    using that by (cases "objects (layer f)") (auto simp: edit_feature_def Let_def)
  with ok Some show ?thesis
    by (simp add: handleEdit_def markers_ok_def list_all_iff)
qed

lemma markers_ok_store:
  "markers_ok objects st \<Longrightarrow>
   (\<And>l. instanceof_Marker (objects' l) = instanceof_Marker (objects l)) \<Longrightarrow>
   markers_ok objects' st"
  by (simp add: markers_ok_def)

text \<open>
  Claim C9. The GeoJSON of a feature gives every coordinate as longitude, then latitude:
  a marker becomes a \<^verbatim>\<open>Point\<close> with the coordinates \<^verbatim>\<open>[lng, lat]\<close> of its position,
  a polyline a \<^verbatim>\<open>LineString\<close> of such pairs, a polygon or rectangle a \<^verbatim>\<open>Polygon\<close>
  whose coordinates are a list of exactly one ring of such pairs. A marker without
  a coordinate, which the registry never holds, makes the function throw.
\<close>

theorem copyFeatureGeoJSON_lng_lat:
  "(feature_type f = marker \<and> coordinates f = c # cs \<longrightarrow>
      copyFeatureGeoJSON f =
        Inr \<lparr>geojson_type = ''Feature'',
             geometry = \<lparr>geometry_type = ''Point'',
                         geometry_coordinates = Arr [Num (lng c), Num (lat c)]\<rparr>,
             properties = \<lparr>properties_area = area f\<rparr>\<rparr>) \<and>
   (feature_type f = marker \<and> coordinates f = [] \<longrightarrow> copyFeatureGeoJSON f = Inl TypeError) \<and>
   (feature_type f = polyline \<longrightarrow>
      copyFeatureGeoJSON f =
        Inr \<lparr>geojson_type = ''Feature'',
             geometry = \<lparr>geometry_type = ''LineString'',
                         geometry_coordinates =
                           Arr (map (\<lambda>c. Arr [Num (lng c), Num (lat c)]) (coordinates f))\<rparr>,
             properties = \<lparr>properties_area = area f\<rparr>\<rparr>) \<and>
   (feature_type f = polygon \<or> feature_type f = rectangle \<longrightarrow>
      copyFeatureGeoJSON f =
        Inr \<lparr>geojson_type = ''Feature'',
             geometry = \<lparr>geometry_type = ''Polygon'',
                         geometry_coordinates =
                           Arr [Arr (map (\<lambda>c. Arr [Num (lng c), Num (lat c)]) (coordinates f))]\<rparr>,
             properties = \<lparr>properties_area = area f\<rparr>\<rparr>)"
  by (auto simp: copyFeatureGeoJSON_def Let_def lng_lat_def [abs_def])

theorem copyFeatureGeoJSON_lng_lat_witness:
  "copyFeatureGeoJSON
     \<lparr>feature_id = ''feature-1'', feature_type = marker, area = None,
      coordinates = [\<lparr>lat = 43.7, lng = - 79.4\<rparr>], layer = 1, layerType = workArea_layer\<rparr>
   = Inr \<lparr>geojson_type = ''Feature'',
          geometry = \<lparr>geometry_type = ''Point'',
                      geometry_coordinates = Arr [Num (- 79.4), Num 43.7]\<rparr>,
          properties = \<lparr>properties_area = None\<rparr>\<rparr> \<and>
   copyFeatureGeoJSON
     \<lparr>feature_id = ''feature-2'', feature_type = polygon, area = Some 12,
      coordinates = [\<lparr>lat = 1, lng = 2\<rparr>, \<lparr>lat = 3, lng = 4\<rparr>, \<lparr>lat = 5, lng = 6\<rparr>],
      layer = 2, layerType = record_layer\<rparr>
   = Inr \<lparr>geojson_type = ''Feature'',
          geometry = \<lparr>geometry_type = ''Polygon'',
                      geometry_coordinates =
                        Arr [Arr [Arr [Num 2, Num 1], Arr [Num 4, Num 3], Arr [Num 6, Num 5]]]\<rparr>,
          properties = \<lparr>properties_area = Some 12\<rparr>\<rparr>"
  using copyFeatureGeoJSON_lng_lat
     [of "\<lparr>feature_id = ''feature-1'', feature_type = marker, area = None,
      coordinates = [\<lparr>lat = 43.7, lng = - 79.4\<rparr>], layer = 1, layerType = workArea_layer\<rparr>"
       "\<lparr>lat = 43.7, lng = - 79.4\<rparr>" "[]"]
    copyFeatureGeoJSON_lng_lat
     [of "\<lparr>feature_id = ''feature-2'', feature_type = polygon, area = Some 12,
      coordinates = [\<lparr>lat = 1, lng = 2\<rparr>, \<lparr>lat = 3, lng = 4\<rparr>, \<lparr>lat = 5, lng = 6\<rparr>],
      layer = 2, layerType = record_layer\<rparr>"]
  by simp

end
